theory Spec2Isabelle
  imports Main "HOL-Library.AList" "HOL-Library.Sublist"
begin

section \<open>JavaScript values and objects\<close>

text \<open>
  Values as the YAML parser and the callers hand them to the manifest code. Arrays and
  objects carry the identity of the reference they live at (a natural number), because
  the code compares them with \<^verbatim>\<open>!==\<close> and stores them in a \<^verbatim>\<open>Set\<close>:
  two objects are equal there exactly when they are the same reference. Numbers are the
  integers (the only number in a manifest is \<^verbatim>\<open>schemaRev\<close>).
\<close>

datatype jsval =
    JUndefined
  | JNull
  | JBool bool
  | JNum int
  | JStr string
  | JArr nat "jsval list"
  | JObj nat "(string \<times> jsval) list"

text \<open>\<^verbatim>\<open>a === b\<close>, which is also the equality of \<^verbatim>\<open>Set.has\<close> on these values.\<close>

fun strict_eq :: "jsval \<Rightarrow> jsval \<Rightarrow> bool" where
  "strict_eq (JArr r xs) (JArr r' ys) = (r = r')"
| "strict_eq (JObj r xs) (JObj r' ys) = (r = r')"
| "strict_eq (JArr r xs) b = False"
| "strict_eq (JObj r xs) b = False"
| "strict_eq a (JArr r ys) = False"
| "strict_eq a (JObj r ys) = False"
| "strict_eq a b = (a = b)"

text \<open>lodash's type tests on these values.\<close>

fun isString :: "jsval \<Rightarrow> bool" where
  "isString (JStr s) = True"
| "isString v = False"

fun isArray :: "jsval \<Rightarrow> bool" where
  "isArray (JArr r xs) = True"
| "isArray v = False"

fun isObject :: "jsval \<Rightarrow> bool" where
  "isObject (JArr r xs) = True"
| "isObject (JObj r fs) = True"
| "isObject v = False"

fun isPlainObject :: "jsval \<Rightarrow> bool" where
  "isPlainObject (JObj r fs) = True"
| "isPlainObject v = False"

text \<open>JavaScript truthiness (\<^verbatim>\<open>if (v)\<close>, \<^verbatim>\<open>!v\<close>).\<close>

fun truthy :: "jsval \<Rightarrow> bool" where
  "truthy JUndefined = False"
| "truthy JNull = False"
| "truthy (JBool b) = b"
| "truthy (JNum n) = (n \<noteq> 0)"
| "truthy (JStr s) = (s \<noteq> [])"
| "truthy (JArr r xs) = True"
| "truthy (JObj r fs) = True"

text \<open>\<^verbatim>\<open>v ?? d\<close>.\<close>

fun nullish_coalesce :: "jsval \<Rightarrow> jsval \<Rightarrow> jsval" where
  "nullish_coalesce JUndefined d = d"
| "nullish_coalesce JNull d = d"
| "nullish_coalesce v d = v"

text \<open>
  An extension record as the checks see it once its properties can be read
  (\<^verbatim>\<open>ExtData\<close>): an object, with its reference and its own properties in enumeration
  order. Its fields are untyped values: checking them is what validation is for. Reading
  a property that is not there gives \<^verbatim>\<open>undefined\<close>. \<open>obj\<close> is the record as a value.
\<close>

datatype extData = ExtData (obj_ref: nat) (obj_fields: "(string \<times> jsval) list")

definition get_prop :: "extData \<Rightarrow> string \<Rightarrow> jsval" where
  "get_prop extData k = (case map_of (obj_fields extData) k of None \<Rightarrow> JUndefined | Some v \<Rightarrow> v)"

fun obj :: "extData \<Rightarrow> jsval" where
  "obj (ExtData r fs) = JObj r fs"

text \<open>
  A record mapping (\<^verbatim>\<open>ExtRecord\<close>, the object under \<^verbatim>\<open>drivers\<close> or \<^verbatim>\<open>plugins\<close>): the
  own enumerable properties of the object in enumeration order, which is the order of
  \<^verbatim>\<open>_.toPairs\<close>. What is stored under a name is whatever the manifest file or the caller
  put there: an object for a well-formed record, but also \<^verbatim>\<open>null\<close> (an entry with no
  value in the file) or any other value.
\<close>

type_synonym extRecord = "(string \<times> jsval) list"

text \<open>
  The order of own properties: the keys that are array indices (decimal numerals
  without a leading zero, below \<^verbatim>\<open>2**32 - 1\<close>) come first in ascending order, the other
  keys follow in the order of their creation. \<open>put_prop\<close> is the assignment
  \<^verbatim>\<open>o[k] = v\<close> on the own properties: it replaces the value of an existing key in place
  and puts a new key where this order wants it.
\<close>

definition decimal_value :: "string \<Rightarrow> nat" where
  "decimal_value k = foldl (\<lambda>n c. 10 * n + (of_char c - 48)) 0 k"

definition array_index :: "string \<Rightarrow> nat option" where
  "array_index k =
     (if k \<noteq> [] \<and> list_all (\<lambda>c. c \<in> set ''0123456789'') k
         \<and> (length k = 1 \<or> hd k \<noteq> CHR ''0'') \<and> decimal_value k < 4294967295
      then Some (decimal_value k) else None)"

fun insert_index :: "nat \<Rightarrow> string \<Rightarrow> jsval \<Rightarrow> extRecord \<Rightarrow> extRecord" where
  "insert_index i k v [] = [(k, v)]"
| "insert_index i k v ((k', v') # rest) =
     (case array_index k' of
        Some j \<Rightarrow> if j < i then (k', v') # insert_index i k v rest else (k, v) # (k', v') # rest
      | None \<Rightarrow> (k, v) # (k', v') # rest)"

definition put_prop :: "string \<Rightarrow> jsval \<Rightarrow> extRecord \<Rightarrow> extRecord" where
  "put_prop k v m =
     (if k \<in> fst ` set m then AList.update k v m
      else (case array_index k of
              None \<Rightarrow> m @ [(k, v)]
            | Some i \<Rightarrow> insert_index i k v m))"

text \<open>The own properties of an array (its elements under their indices) and of a string.\<close>

function decimal :: "nat \<Rightarrow> string" where
  "decimal n =
     (if n < 10 then [''0123456789'' ! n]
      else decimal (n div 10) @ [''0123456789'' ! (n mod 10)])"
  by pat_completeness auto
termination
  by (relation "measure id") auto

definition indexed :: "jsval list \<Rightarrow> extRecord" where
  "indexed xs = zip (map decimal [0..<length xs]) xs"

text \<open>
  The names every object inherits from \<^verbatim>\<open>Object.prototype\<close>. They are not own
  properties, but \<^verbatim>\<open>k in o\<close> holds for them and \<^verbatim>\<open>o[k]\<close> is then the inherited member,
  which is none of the values above.
\<close>

definition Object_prototype_names :: "string list" where
  "Object_prototype_names =
     [''constructor'', ''__defineGetter__'', ''__defineSetter__'', ''hasOwnProperty'',
      ''__lookupGetter__'', ''__lookupSetter__'', ''isPrototypeOf'',
      ''propertyIsEnumerable'', ''toString'', ''valueOf'', ''__proto__'', ''toLocaleString'']"

fun join :: "string \<Rightarrow> string list \<Rightarrow> string" where
  "join sep [] = []"
| "join sep [x] = x"
| "join sep (x # y # ys) = x @ sep @ join sep (y # ys)"

text \<open>Errors thrown or rejected with: the constructor's name, the \<^verbatim>\<open>code\<close> property, the message.\<close>

datatype js_error = JsError (err_name: string) (err_code: "string option") (err_message: string)

section \<open>The manifest store (\<^verbatim>\<open>ManifestIO\<close>)\<close>

text \<open>
  A reference to a record mapping is either a plain object or the change-observing
  \<^verbatim>\<open>Proxy\<close> that \<^verbatim>\<open>_createProxy\<close> puts around a target object; both name the address of
  the (target) object in the heap.
\<close>

datatype mref = Plain nat | Proxy nat

fun target :: "mref \<Rightarrow> nat" where
  "target (Plain a) = a"
| "target (Proxy a) = a"

record manifest =
  drivers :: mref
  plugins :: mref
  schemaRev :: jsval

text \<open>
  The fields of \<^verbatim>\<open>ManifestIO\<close>. \<open>dirty\<close> is \<^verbatim>\<open>_dirty\<close> (\<^verbatim>\<open>undefined\<close> counts as false),
  \<open>data\<close> is \<^verbatim>\<open>_data\<close>, \<open>writing\<close> is \<^verbatim>\<open>_writing\<close>: \<open>None\<close> for \<^verbatim>\<open>null\<close>, otherwise
  the promise stored there, given by what it settles to. \<^verbatim>\<open>_reading\<close> has no field:
  \<^verbatim>\<open>read\<close> clears it in its own \<^verbatim>\<open>finally\<close>, after the promise is stored and settled, so
  between two calls that each run to completion it is always \<^verbatim>\<open>null\<close>.
\<close>

record ManifestIO =
  appiumHome :: string
  dirty :: bool
  data :: "manifest option"
  manifestPath :: "string option"
  writing :: "(js_error + bool) option"

definition new_ManifestIO :: "string \<Rightarrow> ManifestIO" where
  "new_ManifestIO home =
     \<lparr>appiumHome = home, dirty = False, data = None, manifestPath = None, writing = None\<rparr>"

text \<open>File-system calls the store issues, in order.\<close>

datatype event = ReadFile string | Mkdirp string | WriteFile string string

text \<open>
  The program state: the store, the heap of record mappings (by address), the next free
  address, the file-system calls made so far and the lines given to the registries'
  logging sink.
\<close>

record world =
  io :: ManifestIO
  heap :: "nat \<Rightarrow> extRecord"
  next_ref :: nat
  trace :: "event list"
  logged :: "string list"

text \<open>
  The collaborators outside the sources, as parameters: what each call answers. A
  rejected promise or a thrown exception is \<open>Inl\<close> (or \<open>Some\<close> for the calls that
  return nothing). \<open>resolveFrom\<close> and \<open>path_join\<close> are the package \<^verbatim>\<open>resolve-from\<close> and
  Node's \<^verbatim>\<open>path.join\<close>; \<open>loadSchemaModule\<close> is
  \<^verbatim>\<open>require(resolveFrom(path.resolve(appiumHome, installPath), pkgName/schema))\<close>;
  \<open>toText\<close> is the conversion of a value inside a template literal;
  \<open>nullishAccessMessage\<close> is the message of the \<^verbatim>\<open>TypeError\<close> the engine throws when a
  property of \<^verbatim>\<open>null\<close> or \<^verbatim>\<open>undefined\<close> is read, \<open>nullishDestructureMessage\<close> the
  message of the one it throws when \<^verbatim>\<open>null\<close> or \<^verbatim>\<open>undefined\<close> is destructured (given the
  first property of the pattern), and \<open>nonObjectProxyMessage\<close> the message of the one it
  throws when \<^verbatim>\<open>new Proxy\<close> is given a target that is not an object.
\<close>

record env =
  resolveFrom :: "string \<Rightarrow> string \<Rightarrow> js_error + string"
  path_join :: "string list \<Rightarrow> string"
  readFile :: "string \<Rightarrow> js_error + string"
  YAML_parse :: "string \<Rightarrow> js_error + jsval"
  YAML_stringify :: "extRecord \<times> extRecord \<times> jsval \<Rightarrow> string"
  dirname :: "string \<Rightarrow> string"
  mkdirp :: "string \<Rightarrow> js_error option"
  writeFile :: "string \<Rightarrow> string \<Rightarrow> js_error option"
  isAllowedSchemaFileExtension :: "string \<Rightarrow> bool"
  ALLOWED_SCHEMA_EXTENSIONS :: "string list"
  loadSchemaModule :: "string \<Rightarrow> jsval \<Rightarrow> jsval \<Rightarrow> string \<Rightarrow> js_error + jsval"
  registerSchema :: "string \<Rightarrow> string \<Rightarrow> jsval \<Rightarrow> js_error option"
  JSON_stringify :: "jsval \<Rightarrow> string"
  toText :: "jsval \<Rightarrow> string"
  nullishAccessMessage :: "jsval \<Rightarrow> string \<Rightarrow> string"
  nullishDestructureMessage :: "jsval \<Rightarrow> string \<Rightarrow> string"
  nonObjectProxyMessage :: string

definition CONFIG_SCHEMA_REV :: int where
  "CONFIG_SCHEMA_REV = 2"

definition DRIVER_TYPE :: string where
  "DRIVER_TYPE = ''driver''"

definition PLUGIN_TYPE :: string where
  "PLUGIN_TYPE = ''plugin''"

text \<open>Reading \<^verbatim>\<open>v[k]\<close> on any value: a \<^verbatim>\<open>TypeError\<close> on \<^verbatim>\<open>null\<close> and \<^verbatim>\<open>undefined\<close>.\<close>

fun js_member :: "env \<Rightarrow> jsval \<Rightarrow> string \<Rightarrow> js_error + jsval" where
  "js_member E (JObj r fs) k = Inr (case map_of fs k of None \<Rightarrow> JUndefined | Some v \<Rightarrow> v)"
| "js_member E JUndefined k = Inl (JsError ''TypeError'' None (nullishAccessMessage E JUndefined k))"
| "js_member E JNull k = Inl (JsError ''TypeError'' None (nullishAccessMessage E JNull k))"
| "js_member E v k = Inr JUndefined"

subsection \<open>The manifest path (\<^verbatim>\<open>env.getManifestPath\<close>)\<close>

text \<open>
  \<^verbatim>\<open>hasLocalAppium\<close> catches whatever \<^verbatim>\<open>resolveFrom\<close> throws, and \<^verbatim>\<open>getManifestPath\<close> joins
  the directory with one of two relative paths: for a string it always resolves.
\<close>

definition MANIFEST_BASENAME :: string where
  "MANIFEST_BASENAME = ''extensions.yaml''"

definition LOCAL_RELATIVE_MANIFEST_PATH :: "env \<Rightarrow> string" where
  "LOCAL_RELATIVE_MANIFEST_PATH E =
     path_join E [''node_modules'', ''.cache'', ''appium'', MANIFEST_BASENAME]"

definition hasLocalAppium :: "env \<Rightarrow> string \<Rightarrow> bool" where
  "hasLocalAppium E cwd =
     (case resolveFrom E cwd ''appium/package.json'' of Inr found \<Rightarrow> True | Inl e \<Rightarrow> False)"

definition getManifestPath :: "env \<Rightarrow> string \<Rightarrow> string" where
  "getManifestPath E cwd =
     (if hasLocalAppium E cwd then path_join E [cwd, LOCAL_RELATIVE_MANIFEST_PATH E]
      else path_join E [cwd, MANIFEST_BASENAME])"

subsection \<open>The change-observing proxy\<close>

text \<open>
  Assignment \<^verbatim>\<open>o[k] = v\<close> and \<^verbatim>\<open>delete o[k]\<close> on a reference. On a plain object they
  change the object. On a proxy the traps of \<^verbatim>\<open>_createProxy\<close> run first: \<^verbatim>\<open>set\<close> marks
  the store dirty when \<^verbatim>\<open>value !== target[prop]\<close>, \<^verbatim>\<open>deleteProperty\<close> when
  \<^verbatim>\<open>prop in target\<close>; then the target is changed. Both tests see the inherited names as
  well as the own properties. Assigning to \<^verbatim>\<open>__proto__\<close>, when that is not an own
  property, changes the prototype and creates no property; the prototype itself is not
  part of the state. Of an array only the elements are kept.
\<close>

definition has_property :: "string \<Rightarrow> extRecord \<Rightarrow> bool" where
  "has_property k m = (k \<in> fst ` set m \<or> k \<in> set Object_prototype_names)"

definition differs :: "jsval \<Rightarrow> extRecord \<Rightarrow> string \<Rightarrow> bool" where
  "differs v m k =
     (case map_of m k of
        Some old \<Rightarrow> \<not> strict_eq v old
      | None \<Rightarrow> k \<in> set Object_prototype_names \<or> \<not> strict_eq v JUndefined)"

definition assign :: "string \<Rightarrow> jsval \<Rightarrow> extRecord \<Rightarrow> extRecord" where
  "assign k v m = (if k = ''__proto__'' \<and> k \<notin> fst ` set m then m else put_prop k v m)"

definition set_prop :: "mref \<Rightarrow> string \<Rightarrow> jsval \<Rightarrow> world \<Rightarrow> world" where
  "set_prop r k v w =
     (case r of
        Plain a \<Rightarrow> w\<lparr>heap := (heap w)(a := assign k v (heap w a))\<rparr>
      | Proxy a \<Rightarrow>
          w\<lparr>io := (io w)\<lparr>dirty := (if differs v (heap w a) k then True else dirty (io w))\<rparr>,
            heap := (heap w)(a := assign k v (heap w a))\<rparr>)"

definition delete_prop :: "mref \<Rightarrow> string \<Rightarrow> world \<Rightarrow> world" where
  "delete_prop r k w =
     (case r of
        Plain a \<Rightarrow> w\<lparr>heap := (heap w)(a := AList.delete k (heap w a))\<rparr>
      | Proxy a \<Rightarrow>
          w\<lparr>io := (io w)\<lparr>dirty := (if has_property k (heap w a) then True
                                      else dirty (io w))\<rparr>,
            heap := (heap w)(a := AList.delete k (heap w a))\<rparr>)"

text \<open>Reading through a reference (no trap is installed for reads).\<close>

definition get_record :: "mref \<Rightarrow> world \<Rightarrow> extRecord" where
  "get_record r w = heap w (target r)"

subsection \<open>\<^verbatim>\<open>write\<close>\<close>

text \<open>
  \<^verbatim>\<open>write(force)\<close>, run to completion. If \<^verbatim>\<open>_writing\<close> is set, that promise is
  returned. Otherwise the body runs as an immediately invoked \<^verbatim>\<open>async\<close> function whose
  promise is stored in \<^verbatim>\<open>_writing\<close> once the call returns, that is at the body's first
  \<^verbatim>\<open>await\<close> or at its end, whichever comes first; the body's \<^verbatim>\<open>finally\<close> sets
  \<^verbatim>\<open>_writing = null\<close>. On the two paths that end before any \<^verbatim>\<open>await\<close> (nothing to write;
  no data) the \<^verbatim>\<open>finally\<close> therefore runs before the promise is stored, and the stored,
  settled promise stays in \<^verbatim>\<open>_writing\<close>. The paths that reach an \<^verbatim>\<open>await\<close>
  (\<^verbatim>\<open>getManifestPath\<close>, \<^verbatim>\<open>mkdirp\<close>) run the \<^verbatim>\<open>finally\<close> after the promise is stored and
  leave \<^verbatim>\<open>null\<close>. The logging calls of the store are left out.
\<close>

text \<open>
  \<^verbatim>\<open>this._manifestPath ?? (await env.getManifestPath(this._appiumHome))\<close>, the value
  that \<^verbatim>\<open>read\<close> and \<^verbatim>\<open>write\<close> assign to \<^verbatim>\<open>_manifestPath\<close>. The awaited promise is never
  rejected; the result keeps the form of a call that could be, so that \<^verbatim>\<open>read\<close> and
  \<^verbatim>\<open>write\<close> show where such a rejection would leave them.
\<close>

definition resolveManifestPath :: "env \<Rightarrow> world \<Rightarrow> js_error + string" where
  "resolveManifestPath E w =
     (case manifestPath (io w) of
        Some p \<Rightarrow> Inr p
      | None \<Rightarrow> Inr (getManifestPath E (appiumHome (io w))))"

text \<open>\<^verbatim>\<open>YAML.stringify(this._data)\<close>: the serializer reads the two mappings through their proxies.\<close>

definition manifest_yaml :: "env \<Rightarrow> manifest \<Rightarrow> world \<Rightarrow> string" where
  "manifest_yaml E d w =
     YAML_stringify E (get_record (drivers d) w, get_record (plugins d) w, schemaRev d)"

definition write_error :: "string \<Rightarrow> string \<Rightarrow> js_error \<Rightarrow> js_error" where
  "write_error p home err =
     JsError ''Error'' None
       (''Appium could not write to manifest at '' @ p @ '' using APPIUM_HOME '' @ home @
        ''. Please ensure it is writable. Original error: '' @ err_message err)"

definition no_data_error :: js_error where
  "no_data_error = JsError ''ReferenceError'' None ''No data to write. Call `read()` first''"

definition ManifestIO_write :: "env \<Rightarrow> bool \<Rightarrow> world \<Rightarrow> (js_error + bool) \<times> world" where
  "ManifestIO_write E force w =
     (case writing (io w) of
        Some settled \<Rightarrow> (settled, w)
      | None \<Rightarrow>
          if \<not> dirty (io w) \<and> \<not> force
          then (Inr False, w\<lparr>io := (io w)\<lparr>writing := Some (Inr False)\<rparr>\<rparr>)
          else
            (case data (io w) of
               None \<Rightarrow> (Inl no_data_error, w\<lparr>io := (io w)\<lparr>writing := Some (Inl no_data_error)\<rparr>\<rparr>)
             | Some d \<Rightarrow>
                 (case resolveManifestPath E w of
                    Inl e \<Rightarrow> (Inl e, w)
                  | Inr p \<Rightarrow>
                      let w1 = w\<lparr>io := (io w)\<lparr>manifestPath := Some p\<rparr>,
                                 trace := trace w @ [Mkdirp (dirname E p)]\<rparr>
                      in (case mkdirp E (dirname E p) of
                            Some err \<Rightarrow> (Inl (write_error p (appiumHome (io w)) err), w1)
                          | None \<Rightarrow>
                              let yaml = manifest_yaml E d w;
                                  w2 = w1\<lparr>trace := trace w1 @ [WriteFile p yaml]\<rparr>
                              in (case writeFile E p yaml of
                                    Some err \<Rightarrow>
                                      (Inl (write_error p (appiumHome (io w)) err), w2)
                                  | None \<Rightarrow>
                                      (Inr True, w2\<lparr>io := (io w2)\<lparr>dirty := False\<rparr>\<rparr>))))))"

subsection \<open>\<^verbatim>\<open>read\<close>\<close>

definition read_error :: "string \<Rightarrow> js_error \<Rightarrow> js_error" where
  "read_error p err =
     JsError ''Error'' None
       (''Appium had trouble loading the extension installation cache file ('' @ p @
        ''). Ensure it exists and is readable. Specific error: '' @ err_message err)"

definition unknown_error :: "js_error \<Rightarrow> js_error" where
  "unknown_error err =
     JsError ''Error'' None
       (''Appium encountered an unknown problem. Specific error: '' @ err_message err)"

text \<open>
  The \<^verbatim>\<open>try\<close> block of \<^verbatim>\<open>read\<close> (\<^verbatim>\<open>fs.readFile\<close>, then \<^verbatim>\<open>YAML.parse\<close>, which gives
  whatever value the file denotes) and the block with its \<^verbatim>\<open>catch\<close>: the data and the
  \<^verbatim>\<open>isNewFile\<close> flag, or the error thrown from the handler. The handler tests
  \<^verbatim>\<open>this._manifestPath\<close> for truthiness: the empty path is falsy. The objects of the
  literal \<^verbatim>\<open>{drivers: {}, plugins: {}}\<close> are new ones; their references are never
  compared, so they are left at 0.
\<close>

definition try_load :: "env \<Rightarrow> string \<Rightarrow> js_error + jsval" where
  "try_load E p = (case readFile E p of Inl err \<Rightarrow> Inl err | Inr yaml \<Rightarrow> YAML_parse E yaml)"

definition load_data :: "env \<Rightarrow> string \<Rightarrow> js_error + jsval \<times> bool" where
  "load_data E p =
     (case try_load E p of
        Inr d \<Rightarrow> Inr (d, False)
      | Inl err \<Rightarrow>
          if err_code err = Some ''ENOENT''
          then Inr (JObj 0 [(''drivers'', JObj 0 []), (''plugins'', JObj 0 [])], True)
          else if p \<noteq> [] then Inl (read_error p err)
          else Inl (unknown_error err))"

text \<open>
  \<^verbatim>\<open>_createProxy(extTypeKey, manifest)\<close>: \<^verbatim>\<open>new Proxy(manifest[extTypeKey + 's'], ...)\<close>.
  Reading the property throws when the data is \<^verbatim>\<open>null\<close>, and \<^verbatim>\<open>new Proxy\<close> throws when
  the property is not an object. The result is the own properties of the target.
\<close>

definition createProxy :: "env \<Rightarrow> string \<Rightarrow> jsval \<Rightarrow> js_error + extRecord" where
  "createProxy E extTypeKey manifest =
     (case js_member E manifest (extTypeKey @ ''s'') of
        Inl e \<Rightarrow> Inl e
      | Inr t \<Rightarrow>
          (case t of
             JObj r fs \<Rightarrow> Inr fs
           | JArr r xs \<Rightarrow> Inr (indexed xs)
           | _ \<Rightarrow> Inl (JsError ''TypeError'' None (nonObjectProxyMessage E))))"

text \<open>
  The body stored in \<^verbatim>\<open>_reading\<close>. The path is resolved before the \<^verbatim>\<open>try\<close>. After the
  \<^verbatim>\<open>try\<close>, and outside it, \<^verbatim>\<open>_data\<close> is built from the loaded data: the proxy of the
  drivers, the proxy of the plugins, then \<^verbatim>\<open>data.schemaRev ?? CONFIG_SCHEMA_REV\<close>; what
  \<^verbatim>\<open>_createProxy\<close> throws is the rejection of \<^verbatim>\<open>read\<close>, as it is. The two targets get
  the next two addresses of the heap.
\<close>

definition read_body :: "env \<Rightarrow> world \<Rightarrow> (js_error + manifest) \<times> world" where
  "read_body E w =
     (case resolveManifestPath E w of
        Inl e \<Rightarrow> (Inl e, w)
      | Inr p \<Rightarrow>
          let w1 = w\<lparr>io := (io w)\<lparr>manifestPath := Some p\<rparr>, trace := trace w @ [ReadFile p]\<rparr>
          in (case load_data E p of
                Inl e \<Rightarrow> (Inl e, w1)
              | Inr (d, isNewFile) \<Rightarrow>
                  (case createProxy E DRIVER_TYPE d of
                     Inl e \<Rightarrow> (Inl e, w1)
                   | Inr ds \<Rightarrow>
                       (case createProxy E PLUGIN_TYPE d of
                          Inl e \<Rightarrow> (Inl e, w1)
                        | Inr ps \<Rightarrow>
                            (case js_member E d ''schemaRev'' of
                               Inl e \<Rightarrow> (Inl e, w1)
                             | Inr parsedRev \<Rightarrow>
                                 let a = next_ref w1;
                                     m = \<lparr>drivers = Proxy a, plugins = Proxy (a + 1),
                                          schemaRev = nullish_coalesce parsedRev
                                                        (JNum CONFIG_SCHEMA_REV)\<rparr>;
                                     w2 = w1\<lparr>io := (io w1)\<lparr>data := Some m\<rparr>,
                                             heap := (heap w1)(a := ds, a + 1 := ps),
                                             next_ref := a + 2\<rparr>
                                 in if isNewFile
                                    then (case ManifestIO_write E True w2 of
                                            (Inl e, w3) \<Rightarrow> (Inl e, w3)
                                          | (Inr written, w3) \<Rightarrow> (Inr m, w3))
                                    else (Inr m, w2))))))"

definition ManifestIO_read :: "env \<Rightarrow> bool \<Rightarrow> world \<Rightarrow> (js_error + manifest) \<times> world" where
  "ManifestIO_read E force w =
     (case data (io w) of
        Some d \<Rightarrow> if \<not> force then (Inr d, w) else read_body E w
      | None \<Rightarrow> read_body E w)"

section \<open>The extension registries (\<^verbatim>\<open>ExtensionConfig\<close>, \<^verbatim>\<open>DriverConfig\<close>)\<close>

definition INSTALL_TYPES :: "string list" where
  "INSTALL_TYPES = [''git'', ''github'', ''local'', ''npm'']"

record problem =
  err :: string
  val :: jsval

text \<open>
  A registry: which class it is (this decides the \<^verbatim>\<open>getConfigProblems\<close> that runs), the
  reference held in \<^verbatim>\<open>installedExtensions\<close>, and the \<^verbatim>\<open>knownAutomationNames\<close> set of a
  \<^verbatim>\<open>DriverConfig\<close> in insertion order. The store it is bound to (\<^verbatim>\<open>io\<close>) is the store of
  the world; its logging sink is the \<open>logged\<close> list of the world.
\<close>

datatype config_class = DriverConfig | PluginConfig

record ExtensionConfig =
  config_class :: config_class
  installedExtensions :: mref
  knownAutomationNames :: "jsval list"

definition extensionType :: "ExtensionConfig \<Rightarrow> string" where
  "extensionType cfg =
     (case config_class cfg of DriverConfig \<Rightarrow> DRIVER_TYPE | PluginConfig \<Rightarrow> PLUGIN_TYPE)"

definition configKey :: "ExtensionConfig \<Rightarrow> string" where
  "configKey cfg = extensionType cfg @ ''s''"

text \<open>\<^verbatim>\<open>Set.prototype.has\<close> and \<^verbatim>\<open>Set.prototype.add\<close>.\<close>

definition Set_has :: "jsval list \<Rightarrow> jsval \<Rightarrow> bool" where
  "Set_has known v = list_ex (\<lambda>u. strict_eq u v) known"

definition Set_add :: "jsval list \<Rightarrow> jsval \<Rightarrow> jsval list" where
  "Set_add known v = (if Set_has known v then known else known @ [v])"

text \<open>\<^verbatim>\<open>_.includes(INSTALL_TYPES, v)\<close>: \<open>v\<close> is one of the strings of the array.\<close>

fun lodash_includes :: "string list \<Rightarrow> jsval \<Rightarrow> bool" where
  "lodash_includes xs (JStr s) = (s \<in> set xs)"
| "lodash_includes xs v = False"

subsection \<open>The three groups of checks\<close>

text \<open>
  Each of the three methods starts by destructuring its record
  (\<^verbatim>\<open>const {version, ...} = extData\<close>). That throws a \<^verbatim>\<open>TypeError\<close> when the record is
  \<^verbatim>\<open>null\<close> or \<^verbatim>\<open>undefined\<close>; of an object it reads the properties; of any other value
  (a number, a string, an array) every property read is \<^verbatim>\<open>undefined\<close>, and the reference
  plays no part. The methods below take the record once it has been destructured.
\<close>

fun destructure :: "env \<Rightarrow> jsval \<Rightarrow> js_error + extData" where
  "destructure E (JObj r fs) = Inr (ExtData r fs)"
| "destructure E JNull =
     Inl (JsError ''TypeError'' None (nullishDestructureMessage E JNull ''version''))"
| "destructure E JUndefined =
     Inl (JsError ''TypeError'' None (nullishDestructureMessage E JUndefined ''version''))"
| "destructure E (JArr r xs) = Inr (ExtData r [])"
| "destructure E v = Inr (ExtData 0 [])"

definition getGenericConfigProblems :: "extData \<Rightarrow> problem list" where
  "getGenericConfigProblems extData =
     (let version = get_prop extData ''version'';
          pkgName = get_prop extData ''pkgName'';
          installSpec = get_prop extData ''installSpec'';
          installType = get_prop extData ''installType'';
          installPath = get_prop extData ''installPath'';
          mainClass = get_prop extData ''mainClass''
      in (if \<not> isString version
          then [\<lparr>err = ''Missing or incorrect version'', val = version\<rparr>] else [])
       @ (if \<not> isString pkgName
          then [\<lparr>err = ''Missing or incorrect NPM package name'', val = pkgName\<rparr>] else [])
       @ (if \<not> isString installSpec
          then [\<lparr>err = ''Missing or incorrect installation spec'', val = installSpec\<rparr>] else [])
       @ (if \<not> lodash_includes INSTALL_TYPES installType
          then [\<lparr>err = ''Missing or incorrect install type'', val = installType\<rparr>] else [])
       @ (if \<not> isString installPath
          then [\<lparr>err = ''Missing or incorrect installation path'', val = installPath\<rparr>] else [])
       @ (if \<not> isString mainClass
          then [\<lparr>err = ''Missing or incorrect driver class name'', val = mainClass\<rparr>] else []))"

text \<open>The \<^verbatim>\<open>for (const pName of platformNames)\<close> loop of \<^verbatim>\<open>DriverConfig.getConfigProblems\<close>.\<close>

fun check_platformNames :: "jsval list \<Rightarrow> problem list" where
  "check_platformNames [] = []"
| "check_platformNames (pName # rest) =
     (if \<not> isString pName
      then [\<lparr>err = ''Incorrectly formatted platformName.'', val = pName\<rparr>] else [])
     @ check_platformNames rest"

text \<open>
  \<^verbatim>\<open>DriverConfig.getConfigProblems\<close>: the problems of one record, and the
  \<^verbatim>\<open>knownAutomationNames\<close> set after the call.
\<close>

definition DriverConfig_getConfigProblems ::
    "jsval list \<Rightarrow> extData \<Rightarrow> problem list \<times> jsval list" where
  "DriverConfig_getConfigProblems known extData =
     (let platformNames = get_prop extData ''platformNames'';
          automationName = get_prop extData ''automationName''
      in ((case platformNames of
             JArr r pNames \<Rightarrow>
               if pNames = []
               then [\<lparr>err = ''Empty platformNames list.'', val = platformNames\<rparr>]
               else check_platformNames pNames
           | _ \<Rightarrow>
               [\<lparr>err = ''Missing or incorrect supported platformNames list.'',
                 val = platformNames\<rparr>])
          @ (if \<not> isString automationName
             then [\<lparr>err = ''Missing or incorrect automationName'', val = automationName\<rparr>]
             else [])
          @ (if Set_has known automationName
             then [\<lparr>err = ''Multiple drivers claim support for the same automationName'',
                    val = automationName\<rparr>]
             else []),
          Set_add known automationName))"

text \<open>
  The dispatch of \<^verbatim>\<open>this.getConfigProblems(extData)\<close>: \<^verbatim>\<open>DriverConfig\<close> overrides it;
  the method of the base class returns no problem.
\<close>

definition getConfigProblems :: "ExtensionConfig \<Rightarrow> extData \<Rightarrow> problem list \<times> ExtensionConfig" where
  "getConfigProblems cfg extData =
     (case config_class cfg of
        DriverConfig \<Rightarrow>
          (let (problems, known) =
                 DriverConfig_getConfigProblems (knownAutomationNames cfg) extData
           in (problems, cfg\<lparr>knownAutomationNames := known\<rparr>))
      | PluginConfig \<Rightarrow> ([], cfg))"

definition extDataHasSchema :: "extData \<Rightarrow> bool" where
  "extDataHasSchema extData =
     (isString (get_prop extData ''schema'') \<or> isObject (get_prop extData ''schema''))"

text \<open>\<^verbatim>\<open>ExtensionConfig._readExtensionSchema\<close>, reached through \<^verbatim>\<open>readExtensionSchema\<close>.\<close>

definition readExtensionSchema ::
    "env \<Rightarrow> string \<Rightarrow> string \<Rightarrow> string \<Rightarrow> extData \<Rightarrow> js_error + jsval" where
  "readExtensionSchema E home extType extName extData =
     (let installPath = get_prop extData ''installPath'';
          pkgName = get_prop extData ''pkgName'';
          argSchemaPath = get_prop extData ''schema''
      in if \<not> truthy argSchemaPath
         then Inl (JsError ''TypeError'' None
                     (''No `schema` property found in config for '' @ extType @ '' '' @
                      toText E pkgName @ '' -- why is this function being called?''))
         else
           (case (case argSchemaPath of
                    JStr schemaFile \<Rightarrow> loadSchemaModule E home installPath pkgName schemaFile
                  | _ \<Rightarrow> Inr argSchemaPath) of
              Inl e \<Rightarrow> Inl e
            | Inr moduleObject \<Rightarrow>
                (case js_member E moduleObject ''__esModule'' of
                   Inl e \<Rightarrow> Inl e
                 | Inr esModule \<Rightarrow>
                     (case (if truthy esModule then js_member E moduleObject ''default''
                            else Inr moduleObject) of
                        Inl e \<Rightarrow> Inl e
                      | Inr schema \<Rightarrow>
                          (case registerSchema E extType extName schema of
                             Some e \<Rightarrow> Inl e
                           | None \<Rightarrow> Inr schema)))))"

definition getSchemaProblems ::
    "env \<Rightarrow> string \<Rightarrow> string \<Rightarrow> extData \<Rightarrow> string \<Rightarrow> problem list" where
  "getSchemaProblems E home extType extData extName =
     (let argSchemaPath = get_prop extData ''schema''
      in if extDataHasSchema extData
         then (case argSchemaPath of
                 JStr schemaFile \<Rightarrow>
                   if isAllowedSchemaFileExtension E schemaFile
                   then (case readExtensionSchema E home extType extName extData of
                           Inl e \<Rightarrow>
                             [\<lparr>err = ''Unable to register schema at path '' @ schemaFile @
                                      ''; '' @ err_message e,
                               val = argSchemaPath\<rparr>]
                         | Inr schema \<Rightarrow> [])
                   else [\<lparr>err = ''Schema file has unsupported extension. Allowed: '' @
                                join '', '' (ALLOWED_SCHEMA_EXTENSIONS E),
                          val = argSchemaPath\<rparr>]
               | _ \<Rightarrow>
                   if isPlainObject argSchemaPath
                   then (case readExtensionSchema E home extType extName extData of
                           Inl e \<Rightarrow>
                             [\<lparr>err = ''Unable to register embedded schema; '' @ err_message e,
                               val = argSchemaPath\<rparr>]
                         | Inr schema \<Rightarrow> [])
                   else [\<lparr>err = ''Incorrectly formatted schema field; must be a path to a schema file or a schema object.'',
                          val = argSchemaPath\<rparr>])
         else [])"

text \<open>
  For stating what \<^verbatim>\<open>DriverConfig.getConfigProblems\<close> finds about \<^verbatim>\<open>platformNames\<close>: the
  problems of a list that carry one of its three \<^verbatim>\<open>platformNames\<close> messages.
\<close>

definition platformNames_problems :: "problem list \<Rightarrow> problem list" where
  "platformNames_problems problems =
     filter (\<lambda>p. err p = ''Missing or incorrect supported platformNames list.''
                \<or> err p = ''Empty platformNames list.''
                \<or> err p = ''Incorrectly formatted platformName.'') problems"

subsection \<open>\<^verbatim>\<open>validate\<close>\<close>

text \<open>
  The first loop of \<^verbatim>\<open>ExtensionConfig.validate\<close>: for every pair of \<^verbatim>\<open>_.toPairs(exts)\<close>
  in order, the generic, the type-specific and the schema problems. The first thing done
  with a record is the destructuring at the head of \<^verbatim>\<open>getGenericConfigProblems\<close>; no
  \<^verbatim>\<open>try\<close> surrounds the loop, so what it throws ends \<^verbatim>\<open>validate\<close>. Only the type-specific
  check has a state of its own.
\<close>

fun foundProblems ::
    "env \<Rightarrow> string \<Rightarrow> ExtensionConfig \<Rightarrow> (string \<times> jsval) list
       \<Rightarrow> (js_error + (string \<times> problem list) list) \<times> ExtensionConfig" where
  "foundProblems E home cfg [] = (Inr [], cfg)"
| "foundProblems E home cfg ((extName, record) # rest) =
     (case destructure E record of
        Inl e \<Rightarrow> (Inl e, cfg)
      | Inr extData \<Rightarrow>
          (let generic = getGenericConfigProblems extData;
               (specific, cfg1) = getConfigProblems cfg extData;
               schema = getSchemaProblems E home (extensionType cfg) extData extName;
               (others, cfg2) = foundProblems E home cfg1 rest
           in (case others of
                 Inl e \<Rightarrow> (Inl e, cfg2)
               | Inr found \<Rightarrow> (Inr ((extName, generic @ specific @ schema) # found), cfg2))))"

text \<open>
  The second loop: every name with at least one problem is deleted from \<^verbatim>\<open>exts\<close> and
  gets its lines in \<^verbatim>\<open>problemSummaries\<close>.
\<close>

definition summary_lines :: "env \<Rightarrow> string \<Rightarrow> string \<Rightarrow> problem list \<Rightarrow> string list" where
  "summary_lines E extType extName problems =
     (extType @ '' '' @ extName @ '' had errors and will not be available. Errors:'')
     # map (\<lambda>p. ''  - '' @ err p @ '' (Actual value: '' @ JSON_stringify E (val p) @ '')'')
         problems"

fun prune :: "env \<Rightarrow> string \<Rightarrow> mref \<Rightarrow> (string \<times> problem list) list \<Rightarrow> world
                \<Rightarrow> string list \<times> world" where
  "prune E extType exts [] w = ([], w)"
| "prune E extType exts ((extName, problems) # rest) w =
     (if problems = [] then prune E extType exts rest w
      else (let (summaries, w1) = prune E extType exts rest (delete_prop exts extName w)
            in (summary_lines E extType extName problems @ summaries, w1)))"

definition manifestPath_text :: "world \<Rightarrow> string" where
  "manifestPath_text w = (case manifestPath (io w) of None \<Rightarrow> ''undefined'' | Some p \<Rightarrow> p)"

text \<open>
  \<^verbatim>\<open>ExtensionConfig.validate\<close>: what it returns or throws, the registry and the state
  after it.
\<close>

definition ExtensionConfig_validate ::
    "env \<Rightarrow> ExtensionConfig \<Rightarrow> mref \<Rightarrow> world
       \<Rightarrow> (js_error + mref) \<times> ExtensionConfig \<times> world" where
  "ExtensionConfig_validate E cfg exts w =
     (case foundProblems E (appiumHome (io w)) cfg (get_record exts w) of
        (Inl e, cfg1) \<Rightarrow> (Inl e, cfg1, w)
      | (Inr found, cfg1) \<Rightarrow>
          (let (problemSummaries, w1) = prune E (extensionType cfg) exts found w;
               w2 = (if problemSummaries \<noteq> []
                     then w1\<lparr>logged := logged w1
                            @ [''Appium encountered one or more errors while validating the '' @
                               configKey cfg @ '' extension file ('' @ manifestPath_text w @ ''):'']
                            @ problemSummaries\<rparr>
                     else w1)
           in (Inr exts, cfg1, w2)))"

text \<open>
  \<^verbatim>\<open>validate\<close> as called on a registry: \<^verbatim>\<open>DriverConfig.validate\<close> clears
  \<^verbatim>\<open>knownAutomationNames\<close> and calls the method of the base class.
\<close>

definition start_pass :: "ExtensionConfig \<Rightarrow> ExtensionConfig" where
  "start_pass cfg =
     (case config_class cfg of
        DriverConfig \<Rightarrow> cfg\<lparr>knownAutomationNames := []\<rparr>
      | PluginConfig \<Rightarrow> cfg)"

definition validate ::
    "env \<Rightarrow> ExtensionConfig \<Rightarrow> mref \<Rightarrow> world
       \<Rightarrow> (js_error + mref) \<times> ExtensionConfig \<times> world" where
  "validate E cfg exts w = ExtensionConfig_validate E (start_pass cfg) exts w"

subsection \<open>Construction and \<^verbatim>\<open>loadExtensions\<close>\<close>

text \<open>
  The constructor of \<^verbatim>\<open>ExtensionConfig\<close> sets \<^verbatim>\<open>installedExtensions\<close> to a new empty
  object. The constructor of \<^verbatim>\<open>DriverConfig\<close> then creates the empty set and, given
  \<^verbatim>\<open>extData\<close>, calls \<^verbatim>\<open>this.validate(extData)\<close>, whose return value it does not use;
  what \<^verbatim>\<open>validate\<close> throws, the constructor throws.
\<close>

definition new_ExtensionConfig :: "config_class \<Rightarrow> world \<Rightarrow> ExtensionConfig \<times> world" where
  "new_ExtensionConfig cls w =
     (\<lparr>config_class = cls, installedExtensions = Plain (next_ref w),
       knownAutomationNames = []\<rparr>,
      w\<lparr>heap := (heap w)(next_ref w := []), next_ref := next_ref w + 1\<rparr>)"

definition DriverConfig_create ::
    "env \<Rightarrow> mref option \<Rightarrow> world \<Rightarrow> (js_error + ExtensionConfig) \<times> world" where
  "DriverConfig_create E extData w =
     (let (cfg, w1) = new_ExtensionConfig DriverConfig w
      in (case extData of
            None \<Rightarrow> (Inr cfg, w1)
          | Some exts \<Rightarrow>
              (case validate E cfg exts w1 of
                 (Inl e, cfg1, w2) \<Rightarrow> (Inl e, w2)
               | (Inr returned, cfg1, w2) \<Rightarrow> (Inr cfg1, w2))))"

text \<open>
  Modelled from the spec: \<^verbatim>\<open>plugin-config.js\<close> (the class \<^verbatim>\<open>PluginConfig\<close>) is not among
  the sources. By the spec the loader constructs the plugin registry bound to the store,
  seeds it with its slice of the manifest and runs validation immediately; the slice is
  shared by reference, and the registry has no rule beyond the generic ones. So
  \<^verbatim>\<open>create\<close> validates the slice with the \<^verbatim>\<open>getConfigProblems\<close> of the base class and
  keeps the validated mapping itself in \<^verbatim>\<open>installedExtensions\<close>; without a slice the
  registry starts from a new empty object.
\<close>

definition PluginConfig_create ::
    "env \<Rightarrow> mref option \<Rightarrow> world \<Rightarrow> (js_error + ExtensionConfig) \<times> world" where
  "PluginConfig_create E extData w =
     (case extData of
        None \<Rightarrow> (let (cfg, w1) = new_ExtensionConfig PluginConfig w in (Inr cfg, w1))
      | Some exts \<Rightarrow>
          (case validate E \<lparr>config_class = PluginConfig, installedExtensions = exts,
                             knownAutomationNames = []\<rparr> exts w of
             (Inl e, cfg1, w1) \<Rightarrow> (Inl e, w1)
           | (Inr returned, cfg1, w1) \<Rightarrow> (Inr (cfg1\<lparr>installedExtensions := returned\<rparr>), w1)))"

text \<open>\<^verbatim>\<open>loadExtensions\<close>, on the store of the world (\<^verbatim>\<open>getManifestIOInstance(appiumHome)\<close>).\<close>

definition loadExtensions ::
    "env \<Rightarrow> world \<Rightarrow> (js_error + ExtensionConfig \<times> ExtensionConfig) \<times> world" where
  "loadExtensions E w =
     (case ManifestIO_read E False w of
        (Inl e, w1) \<Rightarrow> (Inl e, w1)
      | (Inr m, w1) \<Rightarrow>
          (case DriverConfig_create E (Some (drivers m)) w1 of
             (Inl e, w2) \<Rightarrow> (Inl e, w2)
           | (Inr driverConfig, w2) \<Rightarrow>
               (case PluginConfig_create E (Some (plugins m)) w2 of
                  (Inl e, w3) \<Rightarrow> (Inl e, w3)
                | (Inr pluginConfig, w3) \<Rightarrow> (Inr (driverConfig, pluginConfig), w3))))"

subsection \<open>Adding, updating and removing an extension\<close>

definition addExtension ::
    "env \<Rightarrow> ExtensionConfig \<Rightarrow> string \<Rightarrow> extData \<Rightarrow> world \<Rightarrow> (js_error + bool) \<times> world" where
  "addExtension E cfg extName extData w =
     ManifestIO_write E False (set_prop (installedExtensions cfg) extName (obj extData) w)"

text \<open>
  \<^verbatim>\<open>updateExtension\<close> stores a new object (at the next free reference) with the own
  properties of the current value, if it has any, overwritten by those of \<^verbatim>\<open>extData\<close>.
\<close>

fun spread :: "jsval \<Rightarrow> (string \<times> jsval) list" where
  "spread (JObj r fs) = fs"
| "spread (JArr r xs) = indexed xs"
| "spread (JStr s) = indexed (map (\<lambda>c. JStr [c]) s)"
| "spread v = []"

definition updateExtension ::
    "env \<Rightarrow> ExtensionConfig \<Rightarrow> string \<Rightarrow> extData \<Rightarrow> world \<Rightarrow> (js_error + bool) \<times> world" where
  "updateExtension E cfg extName extData w =
     (let old = (case map_of (get_record (installedExtensions cfg) w) extName of
                   None \<Rightarrow> []
                 | Some cur \<Rightarrow> spread cur);
          merged = JObj (next_ref w)
                     (fold (\<lambda>(k, v). put_prop k v) (obj_fields extData) old)
      in ManifestIO_write E False
           (set_prop (installedExtensions cfg) extName merged (w\<lparr>next_ref := next_ref w + 1\<rparr>)))"

definition removeExtension ::
    "env \<Rightarrow> ExtensionConfig \<Rightarrow> string \<Rightarrow> world \<Rightarrow> (js_error + bool) \<times> world" where
  "removeExtension E cfg extName w =
     ManifestIO_write E False (delete_prop (installedExtensions cfg) extName w)"

text \<open>A mapping all of whose records are objects.\<close>

definition object_records :: "(string \<times> extData) list \<Rightarrow> extRecord" where
  "object_records pairs = map (\<lambda>(n, d). (n, obj d)) pairs"

section \<open>Concrete stores and collaborators\<close>

text \<open>The state of a process that has just created the store of a home directory.\<close>

definition fresh_world :: "string \<Rightarrow> world" where
  "fresh_world home =
     \<lparr>io = new_ManifestIO home, heap = (\<lambda>a. []), next_ref = 0, trace = [], logged = []\<rparr>"

definition enoent :: js_error where
  "enoent = JsError ''Error'' (Some ''ENOENT'') ''no such file or directory''"

definition eacces :: js_error where
  "eacces = JsError ''Error'' (Some ''EACCES'') ''permission denied''"

text \<open>
  A home directory with no local installation and no manifest file, on a file system
  that accepts every write.
\<close>

definition absent_file_env :: env where
  "absent_file_env =
     \<lparr>resolveFrom = (\<lambda>cwd m. Inl (JsError ''Error'' (Some ''MODULE_NOT_FOUND'')
                                      (''Cannot find module '' @ m))),
      path_join = (\<lambda>segments. join ''/'' segments),
      readFile = (\<lambda>p. Inl enoent),
      YAML_parse = (\<lambda>yaml. Inl (JsError ''YAMLParseError'' (Some ''BAD_INDENT'') ''bad indentation'')),
      YAML_stringify = (\<lambda>(ds, ps, n). ''drivers: '' @ join '','' (map fst ds) @
                                       '' plugins: '' @ join '','' (map fst ps)),
      dirname = (\<lambda>p. take (length p - 16) p),
      mkdirp = (\<lambda>d. None),
      writeFile = (\<lambda>p content. None),
      isAllowedSchemaFileExtension =
        (\<lambda>f. list_ex (\<lambda>e. drop (length f - length e) f = e) [''.json'', ''.js'', ''.cjs'']),
      ALLOWED_SCHEMA_EXTENSIONS = [''.json'', ''.js'', ''.cjs''],
      loadSchemaModule = (\<lambda>home installPath pkgName f. Inr (JObj 100 [])),
      registerSchema = (\<lambda>extType extName schema. None),
      JSON_stringify = (\<lambda>v. case v of JStr t \<Rightarrow> [CHR 0x22] @ t @ [CHR 0x22] | _ \<Rightarrow> ''null''),
      toText = (\<lambda>v. case v of JStr t \<Rightarrow> t | _ \<Rightarrow> ''undefined''),
      nullishAccessMessage =
        (\<lambda>v k. ''Cannot read properties of '' @
                (case v of JNull \<Rightarrow> ''null'' | _ \<Rightarrow> ''undefined'') @
                '' (reading '' @ [CHR 0x27] @ k @ [CHR 0x27] @ '')''),
      nullishDestructureMessage =
        (\<lambda>v k. ''Cannot destructure property '' @ [CHR 0x27] @ k @ [CHR 0x27] @
                '' of 'extData' as it is '' @
                (case v of JNull \<Rightarrow> ''null'' | _ \<Rightarrow> ''undefined'') @ ''.''),
      nonObjectProxyMessage = ''Cannot create proxy with a non-object as target or handler''\<rparr>"

definition fake_driver :: extData where
  "fake_driver =
     ExtData 10
       [(''version'', JStr ''1.0.0''), (''pkgName'', JStr ''@appium/fake-driver''),
        (''installSpec'', JStr ''@appium/fake-driver''), (''installType'', JStr ''npm''),
        (''installPath'', JStr ''fake''), (''mainClass'', JStr ''FakeDriver''),
        (''automationName'', JStr ''Fake''), (''platformNames'', JArr 11 [JStr ''Fake''])]"

definition other_driver :: extData where
  "other_driver =
     ExtData 12
       [(''version'', JStr ''2.0.0''), (''pkgName'', JStr ''other-driver''),
        (''installSpec'', JStr ''other-driver''), (''installType'', JStr ''local''),
        (''installPath'', JStr ''other''), (''mainClass'', JStr ''OtherDriver''),
        (''automationName'', JStr ''Fake''), (''platformNames'', JArr 13 [JStr ''Fake''])]"

text \<open>The same home directory with a manifest file that holds one well-formed driver.\<close>

definition one_driver_env :: env where
  "one_driver_env =
     absent_file_env
       \<lparr>readFile := (\<lambda>p. Inr ''drivers: fake''),
        YAML_parse := (\<lambda>yaml. Inr (JObj 1 [(''drivers'', JObj 2 [(''fake'', obj fake_driver)]),
                                           (''plugins'', JObj 3 []),
                                           (''schemaRev'', JNum 2)]))\<rparr>"

text \<open>A file system that refuses to write the manifest.\<close>

definition read_only_env :: env where
  "read_only_env = one_driver_env\<lparr>writeFile := (\<lambda>p content. Some eacces)\<rparr>"

text \<open>A manifest file that cannot be read.\<close>

definition unreadable_env :: env where
  "unreadable_env = one_driver_env\<lparr>readFile := (\<lambda>p. Inl eacces)\<rparr>"

text \<open>
  A manifest file that exists and is empty (it parses to \<^verbatim>\<open>null\<close>), one that holds only
  \<^verbatim>\<open>schemaRev: 2\<close>, and one in which the driver \<^verbatim>\<open>foo\<close> is an entry with no value next to
  the well-formed driver.
\<close>

definition empty_file_env :: env where
  "empty_file_env = one_driver_env\<lparr>readFile := (\<lambda>p. Inr []), YAML_parse := (\<lambda>yaml. Inr JNull)\<rparr>"

definition no_mappings_env :: env where
  "no_mappings_env =
     one_driver_env\<lparr>readFile := (\<lambda>p. Inr ''schemaRev: 2''),
                    YAML_parse := (\<lambda>yaml. Inr (JObj 1 [(''schemaRev'', JNum 2)]))\<rparr>"

definition null_record_env :: env where
  "null_record_env =
     one_driver_env
       \<lparr>readFile := (\<lambda>p. Inr ''drivers: fake, foo''),
        YAML_parse := (\<lambda>yaml. Inr (JObj 1 [(''drivers'', JObj 2 [(''fake'', obj fake_driver),
                                                                 (''foo'', JNull)]),
                                           (''plugins'', JObj 3 []),
                                           (''schemaRev'', JNum 2)]))\<rparr>"

text \<open>The store after a first \<^verbatim>\<open>read()\<close> of the one-driver file, and after a driver was then assigned.\<close>

definition loaded_world :: world where
  "loaded_world = snd (ManifestIO_read one_driver_env False (fresh_world ''/home/appium''))"


text \<open>A well-formed driver record with a number in its \<^verbatim>\<open>schema\<close> field.\<close>

definition numeric_schema_driver :: extData where
  "numeric_schema_driver = ExtData 14 (obj_fields fake_driver @ [(''schema'', JNum 5)])"

text \<open>
  Two well-formed drivers that claim the same \<^verbatim>\<open>automationName\<close>, a state whose object 0
  holds them, and a driver registry that has seen that name in an earlier pass.
\<close>

definition two_drivers :: "(string \<times> extData) list" where
  "two_drivers = [(''fake'', fake_driver), (''other'', other_driver)]"

definition two_driver_world :: world where
  "two_driver_world =
     (fresh_world ''/home/appium'')
       \<lparr>heap := (\<lambda>a. [])(0 := object_records two_drivers), next_ref := 1\<rparr>"

definition used_driverConfig :: ExtensionConfig where
  "used_driverConfig =
     \<lparr>config_class = DriverConfig, installedExtensions = Plain 2,
      knownAutomationNames = [JStr ''Fake'']\<rparr>"

section \<open>Properties\<close>

subsection \<open>Auxiliary facts\<close>

lemma sublist_mid: "sublist xs (a @ xs @ b)"
  unfolding sublist_def by blast


lemma write_fs_step:
  assumes "writing (io w) = None" and "dirty (io w) \<or> force" and "data (io w) = Some d"
    and "resolveManifestPath E w = Inr p"
  shows "ManifestIO_write E force w =
     (case mkdirp E (dirname E p) of
        Some e \<Rightarrow> (Inl (write_error p (appiumHome (io w)) e),
                     w\<lparr>io := (io w)\<lparr>manifestPath := Some p\<rparr>,
                       trace := trace w @ [Mkdirp (dirname E p)]\<rparr>)
      | None \<Rightarrow>
         (case writeFile E p (manifest_yaml E d w) of
            Some e \<Rightarrow> (Inl (write_error p (appiumHome (io w)) e),
                     w\<lparr>io := (io w)\<lparr>manifestPath := Some p\<rparr>,
                       trace := trace w @ [Mkdirp (dirname E p), WriteFile p (manifest_yaml E d w)]\<rparr>)
          | None \<Rightarrow> (Inr True,
                     w\<lparr>io := (io w)\<lparr>manifestPath := Some p, dirty := False\<rparr>,
                       trace := trace w @ [Mkdirp (dirname E p), WriteFile p (manifest_yaml E d w)]\<rparr>)))"
  using assms by (auto simp add: ManifestIO_write_def Let_def split: option.splits)

lemmas example_defs = fresh_world_def new_ManifestIO_def absent_file_env_def one_driver_env_def
  read_only_env_def unreadable_env_def empty_file_env_def no_mappings_env_def null_record_env_def
  enoent_def eacces_def fake_driver_def other_driver_def

lemmas path_defs = getManifestPath_def hasLocalAppium_def LOCAL_RELATIVE_MANIFEST_PATH_def
  MANIFEST_BASENAME_def

lemmas proxy_defs = set_prop_def delete_prop_def differs_def assign_def put_prop_def
  array_index_def has_property_def Object_prototype_names_def

lemmas store_defs = ManifestIO_read_def read_body_def load_data_def try_load_def createProxy_def
  resolveManifestPath_def ManifestIO_write_def manifest_yaml_def get_record_def
  path_defs proxy_defs CONFIG_SCHEMA_REV_def DRIVER_TYPE_def PLUGIN_TYPE_def Let_def

lemma example_path:
  "getManifestPath absent_file_env ''/home/appium'' = ''/home/appium/extensions.yaml''"
  "getManifestPath one_driver_env ''/home/appium'' = ''/home/appium/extensions.yaml''"
  "getManifestPath read_only_env ''/home/appium'' = ''/home/appium/extensions.yaml''"
  by (simp_all add: path_defs example_defs)



lemma read_error_names:
  "sublist p (err_message (read_error p cause))
   \<and> sublist (err_message cause) (err_message (read_error p cause))"
proof -
  let ?a = "''Appium had trouble loading the extension installation cache file (''"
  let ?b = "''). Ensure it exists and is readable. Specific error: ''"
  have m: "err_message (read_error p cause) = ?a @ p @ ?b @ err_message cause"
    by (simp add: read_error_def)
  have 1: "sublist p (?a @ p @ (?b @ err_message cause))" by (rule sublist_mid)
  have "sublist (err_message cause) ((?a @ p @ ?b) @ err_message cause @ [])"
    by (rule sublist_mid)
  then have 2: "sublist (err_message cause) (?a @ p @ ?b @ err_message cause)" by simp
  show ?thesis unfolding m using 1 2 by blast
qed

lemma unknown_error_names:
  "sublist (err_message cause) (err_message (unknown_error cause))"
proof -
  have "sublist (err_message cause)
          (''Appium encountered an unknown problem. Specific error: '' @ err_message cause @ [])"
    by (rule sublist_mid)
  then show ?thesis by (simp add: unknown_error_def)
qed

lemma read_reads:
  assumes "data (io w) = None \<or> force"
  shows "ManifestIO_read E force w = read_body E w"
  using assms by (auto simp add: ManifestIO_read_def split: option.splits)

lemmas registry_defs = loadExtensions_def DriverConfig_create_def PluginConfig_create_def
  new_ExtensionConfig_def validate_def start_pass_def ExtensionConfig_validate_def
  getGenericConfigProblems_def getConfigProblems_def DriverConfig_getConfigProblems_def
  getSchemaProblems_def extDataHasSchema_def get_prop_def Set_has_def Set_add_def
  INSTALL_TYPES_def addExtension_def removeExtension_def updateExtension_def
  extensionType_def configKey_def DRIVER_TYPE_def PLUGIN_TYPE_def summary_lines_def
  manifestPath_text_def object_records_def

lemmas example_defs2 = two_drivers_def two_driver_world_def used_driverConfig_def

lemma check_platformNames_eq:
  "check_platformNames xs =
     map (\<lambda>x. \<lparr>err = ''Incorrectly formatted platformName.'', val = x\<rparr>)
       (filter (\<lambda>x. \<not> isString x) xs)"
  by (induction xs) simp_all

lemma platformNames_problems_check:
  "platformNames_problems (check_platformNames xs @ rest) =
     check_platformNames xs @ platformNames_problems rest"
  by (induction xs) (simp_all add: platformNames_problems_def)

lemma strict_eq_trans: "strict_eq a b \<Longrightarrow> strict_eq b c \<Longrightarrow> strict_eq a c"
  by (cases a; cases b; cases c; simp)

lemma Set_has_add: "Set_has (Set_add K u) v \<longleftrightarrow> Set_has K v \<or> strict_eq u v"
proof (cases "Set_has K u")
  case True
  then obtain k where "k \<in> set K" "strict_eq k u" by (auto simp add: Set_has_def list_ex_iff)
  then have "strict_eq u v \<Longrightarrow> Set_has K v"
    using strict_eq_trans by (auto simp add: Set_has_def list_ex_iff)
  with True show ?thesis by (auto simp add: Set_add_def)
next
  case False
  then show ?thesis by (auto simp add: Set_add_def Set_has_def list_ex_iff)
qed

lemma generic_not_duplicate:
  "p \<in> set (getGenericConfigProblems d) \<Longrightarrow>
     err p \<noteq> ''Multiple drivers claim support for the same automationName''"
  by (auto simp add: getGenericConfigProblems_def Let_def split: if_splits)

lemma schema_not_duplicate:
  "p \<in> set (getSchemaProblems E home t d n) \<Longrightarrow>
     err p \<noteq> ''Multiple drivers claim support for the same automationName''"
  by (auto simp add: getSchemaProblems_def Let_def split: if_splits jsval.splits sum.splits)

lemma check_platformNames_not_duplicate:
  "p \<in> set (check_platformNames xs) \<Longrightarrow>
     err p \<noteq> ''Multiple drivers claim support for the same automationName''"
  by (induction xs) (auto split: if_splits)

lemma driver_duplicate_iff:
  "(\<exists>p \<in> set (fst (DriverConfig_getConfigProblems K d)).
       err p = ''Multiple drivers claim support for the same automationName'')
   \<longleftrightarrow> Set_has K (get_prop d ''automationName'')"
  using check_platformNames_not_duplicate
  by (auto simp add: DriverConfig_getConfigProblems_def Let_def split: if_splits jsval.splits)

lemma driver_known:
  "snd (DriverConfig_getConfigProblems K d) = Set_add K (get_prop d ''automationName'')"
  by (simp add: DriverConfig_getConfigProblems_def Let_def)

lemma destructure_obj: "destructure E (obj d) = Inr d"
  by (cases d) simp

lemma destructure_returns:
  "v \<noteq> JNull \<Longrightarrow> v \<noteq> JUndefined \<Longrightarrow> \<exists>d. destructure E v = Inr d"
  by (cases v) simp_all

lemma foundProblems_Cons:
  assumes "destructure E v = Inr d"
  shows "foundProblems E home cfg ((n, v) # rest) =
     (case fst (foundProblems E home (snd (getConfigProblems cfg d)) rest) of
        Inl e \<Rightarrow> (Inl e, snd (foundProblems E home (snd (getConfigProblems cfg d)) rest))
      | Inr found \<Rightarrow>
          (Inr ((n, getGenericConfigProblems d @ fst (getConfigProblems cfg d)
                    @ getSchemaProblems E home (extensionType cfg) d n) # found),
           snd (foundProblems E home (snd (getConfigProblems cfg d)) rest)))"
  using assms by (simp add: Let_def split_beta)

lemma getConfigProblems_driver:
  assumes "config_class cfg = DriverConfig"
  shows "fst (getConfigProblems cfg d) = fst (DriverConfig_getConfigProblems (knownAutomationNames cfg) d)"
    and "snd (getConfigProblems cfg d) =
           cfg\<lparr>knownAutomationNames := Set_add (knownAutomationNames cfg) (get_prop d ''automationName'')\<rparr>"
  using assms driver_known [of "knownAutomationNames cfg" d]
  by (simp_all add: getConfigProblems_def split_beta)

lemma foundProblems_returns:
  assumes "list_all (\<lambda>(n, v). v \<noteq> JNull \<and> v \<noteq> JUndefined) pairs"
  shows "\<exists>found. fst (foundProblems E home cfg pairs) = Inr found \<and> map fst found = map fst pairs"
  using assms
proof (induction pairs arbitrary: cfg)
  case Nil
  show ?case by simp
next
  case (Cons x rest)
  obtain n v where x: "x = (n, v)" by (cases x)
  from Cons.prems x obtain d where d: "destructure E v = Inr d"
    using destructure_returns [of v E] by auto
  from Cons.prems have "list_all (\<lambda>(n, v). v \<noteq> JNull \<and> v \<noteq> JUndefined) rest" by simp
  from Cons.IH [OF this, of "snd (getConfigProblems cfg d)"]
  obtain found where f: "fst (foundProblems E home (snd (getConfigProblems cfg d)) rest) = Inr found"
    "map fst found = map fst rest" by blast
  show ?case unfolding x foundProblems_Cons [OF d] using f by simp
qed

lemma object_records_not_nullish:
  "list_all (\<lambda>(n, v). v \<noteq> JNull \<and> v \<noteq> JUndefined) (object_records pairs)"
proof (induction pairs)
  case Nil
  show ?case by (simp add: object_records_def)
next
  case (Cons x rest)
  obtain n d where x: "x = (n, d)" by (cases x)
  show ?case using Cons.IH unfolding x by (cases d) (simp add: object_records_def)
qed

lemma foundProblems_driver:
  assumes "config_class cfg = DriverConfig"
  shows "\<exists>found. fst (foundProblems E home cfg (object_records pairs)) = Inr found
       \<and> (\<forall>i < length pairs.
            (\<exists>p \<in> set (snd (found ! i)).
                err p = ''Multiple drivers claim support for the same automationName'')
            \<longleftrightarrow> (Set_has (knownAutomationNames cfg) (get_prop (snd (pairs ! i)) ''automationName'')
                 \<or> (\<exists>j < i. strict_eq (get_prop (snd (pairs ! j)) ''automationName'')
                                     (get_prop (snd (pairs ! i)) ''automationName''))))
       \<and> (\<forall>v. Set_has (knownAutomationNames (snd (foundProblems E home cfg (object_records pairs)))) v
            \<longleftrightarrow> (Set_has (knownAutomationNames cfg) v
                 \<or> (\<exists>j < length pairs. strict_eq (get_prop (snd (pairs ! j)) ''automationName'') v)))"
  using assms
proof (induction pairs arbitrary: cfg)
  case Nil
  show ?case by (simp add: object_records_def)
next
  case (Cons x rest)
  obtain n d where x: "x = (n, d)" by (cases x)
  let ?a = "get_prop d ''automationName''"
  let ?K = "knownAutomationNames cfg"
  let ?cfg1 = "cfg\<lparr>knownAutomationNames := Set_add ?K ?a\<rparr>"
  let ?ps = "getGenericConfigProblems d @ fst (getConfigProblems cfg d)
               @ getSchemaProblems E home (extensionType cfg) d n"
  have c1: "config_class ?cfg1 = DriverConfig" using Cons.prems by simp
  have s1: "snd (getConfigProblems cfg d) = ?cfg1"
    by (rule getConfigProblems_driver(2) [OF Cons.prems])
  have f1: "fst (getConfigProblems cfg d) = fst (DriverConfig_getConfigProblems ?K d)"
    by (rule getConfigProblems_driver(1) [OF Cons.prems])
  from Cons.IH [OF c1] obtain found where
    fr: "fst (foundProblems E home ?cfg1 (object_records rest)) = Inr found"
    and IH1: "\<forall>i < length rest.
            (\<exists>p \<in> set (snd (found ! i)).
                err p = ''Multiple drivers claim support for the same automationName'')
            \<longleftrightarrow> (Set_has (knownAutomationNames ?cfg1) (get_prop (snd (rest ! i)) ''automationName'')
                 \<or> (\<exists>j < i. strict_eq (get_prop (snd (rest ! j)) ''automationName'')
                                     (get_prop (snd (rest ! i)) ''automationName'')))"
    and IH2: "\<forall>v. Set_has (knownAutomationNames (snd (foundProblems E home ?cfg1 (object_records rest)))) v
            \<longleftrightarrow> (Set_has (knownAutomationNames ?cfg1) v
                 \<or> (\<exists>j < length rest. strict_eq (get_prop (snd (rest ! j)) ''automationName'') v))"
    by blast
  have step: "foundProblems E home cfg (object_records (x # rest)) =
                (Inr ((n, ?ps) # found), snd (foundProblems E home ?cfg1 (object_records rest)))"
    unfolding x using fr foundProblems_Cons [OF destructure_obj, of E home cfg n d "object_records rest"]
    by (simp add: object_records_def s1)
  have head: "(\<exists>p \<in> set ?ps.
                err p = ''Multiple drivers claim support for the same automationName'')
              \<longleftrightarrow> Set_has ?K ?a"
    using generic_not_duplicate [of _ d] schema_not_duplicate [of _ E home "extensionType cfg" d n]
      driver_duplicate_iff [of ?K d]
    unfolding f1 by auto
  have has1: "Set_has (knownAutomationNames ?cfg1) v \<longleftrightarrow> Set_has ?K v \<or> strict_eq ?a v" for v
    by (simp add: Set_has_add)
  have A: "(\<exists>p \<in> set (snd (((n, ?ps) # found) ! i)).
                err p = ''Multiple drivers claim support for the same automationName'')
            \<longleftrightarrow> (Set_has ?K (get_prop (snd ((x # rest) ! i)) ''automationName'')
                 \<or> (\<exists>j < i. strict_eq (get_prop (snd ((x # rest) ! j)) ''automationName'')
                                     (get_prop (snd ((x # rest) ! i)) ''automationName'')))"
    if i: "i < length (x # rest)" for i
  proof (cases i)
    case 0
    then show ?thesis unfolding x using head by simp
  next
    case (Suc k)
    then have k: "k < length rest" using i by simp
    have "(\<exists>p \<in> set (snd (found ! k)).
                err p = ''Multiple drivers claim support for the same automationName'')
            \<longleftrightarrow> (Set_has (knownAutomationNames ?cfg1) (get_prop (snd (rest ! k)) ''automationName'')
                 \<or> (\<exists>j < k. strict_eq (get_prop (snd (rest ! j)) ''automationName'')
                                     (get_prop (snd (rest ! k)) ''automationName'')))"
      using IH1 k by blast
    also have "\<dots> \<longleftrightarrow> (Set_has ?K (get_prop (snd (rest ! k)) ''automationName'')
                 \<or> (\<exists>j < Suc k. strict_eq (get_prop (snd (((n, d) # rest) ! j)) ''automationName'')
                                     (get_prop (snd (rest ! k)) ''automationName'')))"
      unfolding has1 by (auto simp add: less_Suc_eq_0_disj)
    finally show ?thesis unfolding x Suc by simp
  qed
  have C: "Set_has (knownAutomationNames (snd (foundProblems E home cfg (object_records (x # rest))))) v
            \<longleftrightarrow> (Set_has ?K v
                 \<or> (\<exists>j < length (x # rest).
                       strict_eq (get_prop (snd ((x # rest) ! j)) ''automationName'') v))" for v
  proof -
    have "Set_has (knownAutomationNames (snd (foundProblems E home ?cfg1 (object_records rest)))) v
            \<longleftrightarrow> (Set_has (knownAutomationNames ?cfg1) v
                 \<or> (\<exists>j < length rest. strict_eq (get_prop (snd (rest ! j)) ''automationName'') v))"
      using IH2 by blast
    also have "\<dots> \<longleftrightarrow> (Set_has ?K v
                 \<or> (\<exists>j < length ((n, d) # rest).
                       strict_eq (get_prop (snd (((n, d) # rest) ! j)) ''automationName'') v))"
      unfolding has1 by (auto simp add: less_Suc_eq_0_disj)
    finally show ?thesis unfolding step unfolding x by simp
  qed
  show ?case
    using step A C by (intro exI [of _ "(n, ?ps) # found"]) simp
qed

lemma strict_eq_refl: "strict_eq v v"
  by (cases v) simp_all

lemma get_record_delete_prop:
  "get_record exts (delete_prop exts k w) = AList.delete k (get_record exts w)"
  by (cases exts) (simp_all add: get_record_def delete_prop_def)

lemma delete_prop_frame:
  "a \<noteq> target exts \<Longrightarrow> heap (delete_prop exts k w) a = heap w a"
  "logged (delete_prop exts k w) = logged w"
  "trace (delete_prop exts k w) = trace w"
  "manifestPath (io (delete_prop exts k w)) = manifestPath (io w)"
  by (cases exts; simp add: delete_prop_def)+

lemma prune_summaries:
  "fst (prune E t exts found w) =
     concat (map (\<lambda>(n, ps). summary_lines E t n ps) (filter (\<lambda>(n, ps). ps \<noteq> []) found))"
  by (induction found arbitrary: w) (auto simp add: split_beta)

lemma prune_record:
  "get_record exts (snd (prune E t exts found w)) =
     filter (\<lambda>(n, d). n \<notin> fst ` {x \<in> set found. snd x \<noteq> []}) (get_record exts w)"
proof (induction found arbitrary: w)
  case Nil
  show ?case by simp
next
  case (Cons x found)
  obtain n ps where x: "x = (n, ps)" by (cases x)
  show ?case
  proof (cases "ps = []")
    case True
    have "fst ` {y \<in> set ((n, ps) # found). snd y \<noteq> []} = fst ` {y \<in> set found. snd y \<noteq> []}"
      using True by auto
    then show ?thesis unfolding x using True Cons.IH by simp
  next
    case False
    have "{y \<in> set ((n, ps) # found). snd y \<noteq> []}
            = insert (n, ps) {y \<in> set found. snd y \<noteq> []}"
      using False by auto
    then have s: "fst ` {y \<in> set ((n, ps) # found). snd y \<noteq> []}
               = insert n (fst ` {y \<in> set found. snd y \<noteq> []})"
      by simp
    have "get_record exts (snd (prune E t exts ((n, ps) # found) w)) =
            get_record exts (snd (prune E t exts found (delete_prop exts n w)))"
      using False by (simp add: split_beta)
    also have "\<dots> = filter (\<lambda>(m, d). m \<notin> fst ` {y \<in> set found. snd y \<noteq> []})
                        (AList.delete n (get_record exts w))"
      by (simp add: Cons.IH get_record_delete_prop)
    also have "\<dots> = filter (\<lambda>(m, d). m \<notin> insert n (fst ` {y \<in> set found. snd y \<noteq> []}))
                        (get_record exts w)"
      by (auto simp add: AList.delete_eq intro: filter_cong)
    finally show ?thesis unfolding x s .
  qed
qed

lemma prune_frame:
  "(a \<noteq> target exts \<longrightarrow> heap (snd (prune E t exts found w)) a = heap w a)
   \<and> logged (snd (prune E t exts found w)) = logged w
   \<and> trace (snd (prune E t exts found w)) = trace w"
  by (induction found arbitrary: w) (auto simp add: split_beta delete_prop_frame)

lemma summaries_empty_iff:
  "concat (map (\<lambda>(n, ps). summary_lines E t n ps) (filter (\<lambda>(n, ps). ps \<noteq> []) found)) = []
   \<longleftrightarrow> list_all (\<lambda>(n, ps). ps = []) found"
  by (induction found) (auto simp add: summary_lines_def)

lemma no_problems_iff:
  assumes "distinct (map fst found)" and "n \<in> fst ` set found"
  shows "map_of found n = Some [] \<longleftrightarrow> n \<notin> fst ` {x \<in> set found. snd x \<noteq> []}"
proof
  assume "map_of found n = Some []"
  then have m: "(n, []) \<in> set found" by (rule map_of_SomeD)
  show "n \<notin> fst ` {x \<in> set found. snd x \<noteq> []}"
  proof
    assume "n \<in> fst ` {x \<in> set found. snd x \<noteq> []}"
    then obtain ps where "(n, ps) \<in> set found" "ps \<noteq> []" by auto
    with m assms(1) show False by (meson eq_key_imp_eq_value)
  qed
next
  assume a: "n \<notin> fst ` {x \<in> set found. snd x \<noteq> []}"
  from assms(2) obtain ps where p: "(n, ps) \<in> set found" by auto
  with a have "ps = []" by force
  with p assms(1) show "map_of found n = Some []" by simp
qed

subsection \<open>The store and the registries in general\<close>

text \<open>
  What the proxy observes; what \<^verbatim>\<open>write\<close> and \<^verbatim>\<open>read\<close> do on a store whose \<^verbatim>\<open>_writing\<close>
  handle is \<^verbatim>\<open>null\<close>, and what \<^verbatim>\<open>write\<close> does when a promise is left there; how \<^verbatim>\<open>read\<close>
  fails; what \<^verbatim>\<open>validate\<close> does with a mapping none of whose records is \<^verbatim>\<open>null\<close> or
  \<^verbatim>\<open>undefined\<close>; and which object a driver registry made by \<^verbatim>\<open>loadExtensions\<close> holds in
  \<^verbatim>\<open>installedExtensions\<close>.
\<close>

lemma set_prop_dirty:
  "dirty (io (set_prop (Proxy a) k v w)) \<longleftrightarrow> dirty (io w) \<or> differs v (heap w a) k"
  by (simp add: set_prop_def)

lemma delete_prop_dirty:
  "dirty (io (delete_prop (Proxy a) k w)) \<longleftrightarrow> dirty (io w) \<or> has_property k (heap w a)"
  by (simp add: delete_prop_def)

lemma plain_mutation_not_observed:
  "io (set_prop (Plain a) k v w) = io w" "io (delete_prop (Plain a) k w) = io w"
  by (simp_all add: set_prop_def delete_prop_def)

lemma first_write_before_read:
  assumes "data (io w) = None" and "\<not> dirty (io w)" and "writing (io w) = None"
  shows "fst (ManifestIO_write E True w) =
           Inl (JsError ''ReferenceError'' None ''No data to write. Call `read()` first'')
         \<and> fst (ManifestIO_write E False w) = Inr False
         \<and> trace (snd (ManifestIO_write E False w)) = trace w
         \<and> heap (snd (ManifestIO_write E False w)) = heap w"
  using assms by (simp add: ManifestIO_write_def no_data_error_def)

lemma write_before_read_leaves_promise:
  assumes "data (io w) = None" and "\<not> dirty (io w)" and "writing (io w) = None"
  shows "writing (io (snd (ManifestIO_write E force w))) \<noteq> None"
  using assms by (simp add: ManifestIO_write_def)

lemma write_persists:
  assumes "writing (io w) = None" and "dirty (io w) \<or> force" and "data (io w) = Some d"
    and "resolveManifestPath E w = Inr p"
    and "mkdirp E (dirname E p) = None" and "writeFile E p (manifest_yaml E d w) = None"
  shows "fst (ManifestIO_write E force w) = Inr True"
    and "trace (snd (ManifestIO_write E force w)) =
           trace w @ [Mkdirp (dirname E p), WriteFile p (manifest_yaml E d w)]"
    and "\<not> dirty (io (snd (ManifestIO_write E force w)))"
    and "writing (io (snd (ManifestIO_write E force w))) = None"
  using assms(1,5,6) unfolding write_fs_step [OF assms(1-4)] by simp_all

lemma write_clean:
  assumes "writing (io w) = None" and "\<not> dirty (io w)"
  shows "fst (ManifestIO_write E False w) = Inr False"
    and "trace (snd (ManifestIO_write E False w)) = trace w"
    and "writing (io (snd (ManifestIO_write E False w))) = Some (Inr False)"
  using assms by (simp_all add: ManifestIO_write_def)

lemma write_returns_stored_promise:
  assumes "writing (io w) = Some settled"
  shows "ManifestIO_write E force w = (settled, w)"
  using assms by (simp add: ManifestIO_write_def)

lemma read_bootstrap:
  assumes "data (io w) = None \<or> force" and "writing (io w) = None"
    and "resolveManifestPath E w = Inr p" and "try_load E p = Inl cause"
    and "err_code cause = Some ''ENOENT''"
    and "mkdirp E (dirname E p) = None"
    and "writeFile E p (YAML_stringify E ([], [], JNum 2)) = None"
  shows "fst (ManifestIO_read E force w) =
           Inr \<lparr>drivers = Proxy (next_ref w), plugins = Proxy (next_ref w + 1), schemaRev = JNum 2\<rparr>"
    and "trace (snd (ManifestIO_read E force w)) =
           trace w @ [ReadFile p, Mkdirp (dirname E p), WriteFile p (YAML_stringify E ([], [], JNum 2))]"
    and "get_record (Proxy (next_ref w)) (snd (ManifestIO_read E force w)) = []"
    and "get_record (Proxy (next_ref w + 1)) (snd (ManifestIO_read E force w)) = []"
proof -
  let ?m = "\<lparr>drivers = Proxy (next_ref w), plugins = Proxy (next_ref w + 1), schemaRev = JNum 2\<rparr>"
  let ?w1 = "w\<lparr>io := (io w)\<lparr>manifestPath := Some p\<rparr>, trace := trace w @ [ReadFile p]\<rparr>"
  let ?w2 = "?w1\<lparr>io := (io ?w1)\<lparr>data := Some ?m\<rparr>,
               heap := (heap ?w1)(next_ref w := [], next_ref w + 1 := []),
               next_ref := next_ref w + 2\<rparr>"
  have y: "manifest_yaml E ?m ?w2 = YAML_stringify E ([], [], JNum 2)"
    by (simp add: manifest_yaml_def get_record_def)
  have w: "ManifestIO_write E True ?w2 =
     (Inr True, ?w2\<lparr>io := (io ?w2)\<lparr>manifestPath := Some p, dirty := False\<rparr>,
                   trace := trace ?w2 @ [Mkdirp (dirname E p),
                                          WriteFile p (YAML_stringify E ([], [], JNum 2))]\<rparr>)"
    using write_fs_step [of ?w2 True ?m E p] assms(2,6,7) y
    by (simp add: resolveManifestPath_def)
  show "fst (ManifestIO_read E force w) = Inr ?m"
    and "trace (snd (ManifestIO_read E force w)) =
           trace w @ [ReadFile p, Mkdirp (dirname E p), WriteFile p (YAML_stringify E ([], [], JNum 2))]"
    and "get_record (Proxy (next_ref w)) (snd (ManifestIO_read E force w)) = []"
    and "get_record (Proxy (next_ref w + 1)) (snd (ManifestIO_read E force w)) = []"
    using w assms(3,4,5)
    by (simp_all add: read_reads [OF assms(1)] read_body_def load_data_def createProxy_def
          DRIVER_TYPE_def PLUGIN_TYPE_def Let_def CONFIG_SCHEMA_REV_def get_record_def)
qed

lemma read_parsed:
  assumes "data (io w) = None \<or> force"
    and "resolveManifestPath E w = Inr p" and "try_load E p = Inr (JObj r fs)"
    and "map_of fs ''drivers'' = Some (JObj rd ds)" and "map_of fs ''plugins'' = Some (JObj rp ps)"
  shows "\<exists>m. fst (ManifestIO_read E force w) = Inr m
           \<and> schemaRev m = nullish_coalesce (case map_of fs ''schemaRev'' of None \<Rightarrow> JUndefined
                                              | Some n \<Rightarrow> n) (JNum 2)
           \<and> get_record (drivers m) (snd (ManifestIO_read E force w)) = ds
           \<and> get_record (plugins m) (snd (ManifestIO_read E force w)) = ps"
  using assms(2-5) unfolding read_reads [OF assms(1)]
  by (simp add: read_body_def load_data_def createProxy_def DRIVER_TYPE_def PLUGIN_TYPE_def
        Let_def CONFIG_SCHEMA_REV_def get_record_def)

lemma read_load_failure:
  assumes "data (io w) = None \<or> force"
    and "resolveManifestPath E w = Inr p" and "try_load E p = Inl cause"
    and "err_code cause \<noteq> Some ''ENOENT''" and "p \<noteq> []"
  shows "fst (ManifestIO_read E force w) = Inl (read_error p cause)"
    and "sublist p (err_message (read_error p cause))"
    and "sublist (err_message cause) (err_message (read_error p cause))"
  using assms(2-5) read_error_names [of p cause]
  by (simp_all add: read_reads [OF assms(1)] read_body_def load_data_def Let_def)

lemma read_null_data:
  assumes "data (io w) = None \<or> force"
    and "resolveManifestPath E w = Inr p" and "try_load E p = Inr JNull"
  shows "fst (ManifestIO_read E force w) =
           Inl (JsError ''TypeError'' None (nullishAccessMessage E JNull ''drivers''))"
  using assms(2,3)
  by (simp add: read_reads [OF assms(1)] read_body_def load_data_def createProxy_def
        DRIVER_TYPE_def Let_def)

lemma read_no_drivers:
  assumes "data (io w) = None \<or> force"
    and "resolveManifestPath E w = Inr p" and "try_load E p = Inr (JObj r fs)"
    and "map_of fs ''drivers'' = None"
  shows "fst (ManifestIO_read E force w) = Inl (JsError ''TypeError'' None (nonObjectProxyMessage E))"
  using assms(2-4)
  by (simp add: read_reads [OF assms(1)] read_body_def load_data_def createProxy_def
        DRIVER_TYPE_def Let_def)

lemma validate_prunes:
  assumes "distinct (map fst (get_record exts w))"
    and "list_all (\<lambda>(n, v). v \<noteq> JNull \<and> v \<noteq> JUndefined) (get_record exts w)"
  shows "\<exists>found. fst (foundProblems E (appiumHome (io w)) (start_pass cfg) (get_record exts w)) =
                    Inr found
    \<and> fst (validate E cfg exts w) = Inr exts
    \<and> get_record exts (snd (snd (validate E cfg exts w))) =
        filter (\<lambda>(n, v). map_of found n = Some []) (get_record exts w)
    \<and> (\<forall>a. a \<noteq> target exts \<longrightarrow> heap (snd (snd (validate E cfg exts w))) a = heap w a)
    \<and> trace (snd (snd (validate E cfg exts w))) = trace w
    \<and> logged (snd (snd (validate E cfg exts w))) =
        logged w @
        (if list_all (\<lambda>(n, ps). ps = []) found then []
         else (''Appium encountered one or more errors while validating the '' @
               configKey (start_pass cfg) @ '' extension file ('' @ manifestPath_text w @ ''):'')
              # concat (map (\<lambda>(n, ps). summary_lines E (extensionType (start_pass cfg)) n ps)
                  (filter (\<lambda>(n, ps). ps \<noteq> []) found)))"
proof -
  let ?F = "foundProblems E (appiumHome (io w)) (start_pass cfg) (get_record exts w)"
  from foundProblems_returns [OF assms(2), of E "appiumHome (io w)" "start_pass cfg"]
  obtain found where f: "fst ?F = Inr found" and names: "map fst found = map fst (get_record exts w)"
    by blast
  let ?pr = "prune E (extensionType (start_pass cfg)) exts found w"
  have d: "distinct (map fst found)" using assms(1) names by simp
  have rec: "get_record exts (snd ?pr) =
        filter (\<lambda>(n, v). map_of found n = Some []) (get_record exts w)"
  proof -
    have "\<And>n e. (n, e) \<in> set (get_record exts w) \<Longrightarrow>
            (n \<notin> fst ` {x \<in> set found. snd x \<noteq> []}) = (map_of found n = Some [])"
    proof -
      fix n e assume "(n, e) \<in> set (get_record exts w)"
      then have "n \<in> set (map fst (get_record exts w))" by force
      then have "n \<in> fst ` set found" using names by (metis list.set_map)
      then show "(n \<notin> fst ` {x \<in> set found. snd x \<noteq> []}) = (map_of found n = Some [])"
        using no_problems_iff [OF d] by blast
    qed
    then show ?thesis unfolding prune_record by (auto intro: filter_cong)
  qed
  have F: "?F = (Inr found, snd ?F)" using f by (cases ?F) simp
  have v: "validate E cfg exts w =
     (Inr exts, snd ?F,
      (if fst ?pr \<noteq> []
       then (snd ?pr)\<lparr>logged := logged (snd ?pr)
               @ [''Appium encountered one or more errors while validating the '' @
                  configKey (start_pass cfg) @ '' extension file ('' @ manifestPath_text w @ ''):'']
               @ fst ?pr\<rparr>
       else snd ?pr))"
    unfolding validate_def ExtensionConfig_validate_def
    by (subst F) (simp add: Let_def split_beta)
  have fr: "(\<forall>a. a \<noteq> target exts \<longrightarrow> heap (snd ?pr) a = heap w a)"
    "logged (snd ?pr) = logged w" "trace (snd ?pr) = trace w"
    using prune_frame [of _ exts E "extensionType (start_pass cfg)" found w] by auto
  have sm: "fst ?pr = concat (map (\<lambda>(n, ps). summary_lines E (extensionType (start_pass cfg)) n ps)
                  (filter (\<lambda>(n, ps). ps \<noteq> []) found))"
    by (rule prune_summaries)
  have em: "fst ?pr = [] \<longleftrightarrow> list_all (\<lambda>(n, ps). ps = []) found"
    unfolding sm by (rule summaries_empty_iff)
  show ?thesis
  proof (cases "list_all (\<lambda>(n, ps). ps = []) found")
    case True
    then have "fst ?pr = []" using em by simp
    then have "validate E cfg exts w = (Inr exts, snd ?F, snd ?pr)"
      unfolding v by simp
    then show ?thesis using f rec fr True by simp
  next
    case False
    then have "fst ?pr \<noteq> []" using em by simp
    then have "validate E cfg exts w = (Inr exts, snd ?F,
                 (snd ?pr)\<lparr>logged := logged (snd ?pr)
               @ [''Appium encountered one or more errors while validating the '' @
                  configKey (start_pass cfg) @ '' extension file ('' @ manifestPath_text w @ ''):'']
               @ fst ?pr\<rparr>)"
      unfolding v by simp
    then show ?thesis using f rec fr False sm by (simp add: get_record_def)
  qed
qed

lemma validate_throws:
  assumes "get_record exts w = before @ (n, v) # rest"
    and "list_all (\<lambda>(n, v). v \<noteq> JNull \<and> v \<noteq> JUndefined) before"
    and "v = JNull \<or> v = JUndefined"
  shows "fst (validate E cfg exts w) =
           Inl (JsError ''TypeError'' None (nullishDestructureMessage E v ''version''))"
    and "snd (snd (validate E cfg exts w)) = w"
proof -
  have e: "destructure E v = Inl (JsError ''TypeError'' None (nullishDestructureMessage E v ''version''))"
    using assms(3) by auto
  have "fst (foundProblems E home c (before @ (n, v) # rest)) =
          Inl (JsError ''TypeError'' None (nullishDestructureMessage E v ''version''))" for home c
    using assms(2)
  proof (induction before arbitrary: c)
    case Nil
    show ?case using e by simp
  next
    case (Cons x before)
    obtain m u where x: "x = (m, u)" by (cases x)
    from Cons.prems x obtain d where d: "destructure E u = Inr d"
      using destructure_returns [of u E] by auto
    from Cons.prems have "list_all (\<lambda>(n, v). v \<noteq> JNull \<and> v \<noteq> JUndefined) before" by simp
    from Cons.IH [OF this] show ?case
      unfolding x append_Cons foundProblems_Cons [OF d] by simp
  qed
  then have f: "fst (foundProblems E (appiumHome (io w)) (start_pass cfg) (get_record exts w)) =
          Inl (JsError ''TypeError'' None (nullishDestructureMessage E v ''version''))"
    unfolding assms(1) .
  show "fst (validate E cfg exts w) =
           Inl (JsError ''TypeError'' None (nullishDestructureMessage E v ''version''))"
    and "snd (snd (validate E cfg exts w)) = w"
    using f
    by (cases "foundProblems E (appiumHome (io w)) (start_pass cfg) (get_record exts w)";
        simp add: validate_def ExtensionConfig_validate_def)+
qed

lemma getConfigProblems_installedExtensions:
  "installedExtensions (snd (getConfigProblems cfg d)) = installedExtensions cfg"
  by (cases "config_class cfg") (simp_all add: getConfigProblems_def split_beta)

lemma foundProblems_installedExtensions:
  "installedExtensions (snd (foundProblems E home cfg pairs)) = installedExtensions cfg"
proof (induction pairs arbitrary: cfg)
  case Nil
  show ?case by simp
next
  case (Cons x rest)
  obtain n v where x: "x = (n, v)" by (cases x)
  show ?case
  proof (cases "destructure E v")
    case (Inl e)
    then show ?thesis unfolding x by simp
  next
    case (Inr d)
    show ?thesis unfolding x foundProblems_Cons [OF Inr]
      by (simp add: Cons.IH getConfigProblems_installedExtensions split: sum.splits)
  qed
qed

lemma validate_installedExtensions:
  "installedExtensions (fst (snd (validate E cfg exts w))) = installedExtensions cfg"
proof -
  have "installedExtensions (start_pass cfg) = installedExtensions cfg"
    by (cases "config_class cfg") (simp_all add: start_pass_def)
  then show ?thesis
    using foundProblems_installedExtensions [of E "appiumHome (io w)" "start_pass cfg" "get_record exts w"]
    by (cases "foundProblems E (appiumHome (io w)) (start_pass cfg) (get_record exts w)")
       (auto simp add: validate_def ExtensionConfig_validate_def Let_def split_beta
          split: sum.splits)
qed

lemma loadExtensions_plain_object:
  assumes "loadExtensions E w = (Inr (driverConfig, pluginConfig), w')"
  shows "\<exists>a. installedExtensions driverConfig = Plain a"
proof -
  have "\<exists>a. installedExtensions c = Plain a"
    if "DriverConfig_create E (Some exts) w1 = (Inr c, w2)" for exts w1 c w2
  proof -
    let ?cfg = "fst (new_ExtensionConfig DriverConfig w1)"
    let ?w = "snd (new_ExtensionConfig DriverConfig w1)"
    have "c = fst (snd (validate E ?cfg exts ?w))"
      using that
      by (cases "validate E ?cfg exts ?w")
         (auto simp add: DriverConfig_create_def Let_def split_beta split: sum.splits)
    then show ?thesis
      by (simp add: validate_installedExtensions new_ExtensionConfig_def)
  qed
  then show ?thesis
    using assms
    by (auto simp add: loadExtensions_def split: prod.splits sum.splits)
qed

subsection \<open>Claims about \<^verbatim>\<open>write\<close>\<close>

text \<open>
  C4 at the failing input. On a new store, on which \<^verbatim>\<open>read()\<close> was never called,
  \<^verbatim>\<open>write()\<close> returns false and runs to its end; no write is in flight after it. A
  \<^verbatim>\<open>write(true)\<close> that follows does not reject: it returns false, the settled promise
  that the first call left in \<^verbatim>\<open>_writing\<close>. In the other order, \<^verbatim>\<open>write(true)\<close> rejects
  with the \<^verbatim>\<open>ReferenceError\<close>, and the \<^verbatim>\<open>write()\<close> that follows rejects with it too
  instead of returning false.
\<close>

theorem forced_write_after_clean_write:
  "data (io (fresh_world ''/home/appium'')) = None
   \<and> fst (ManifestIO_write absent_file_env False (fresh_world ''/home/appium'')) = Inr False
   \<and> data (io (snd (ManifestIO_write absent_file_env False (fresh_world ''/home/appium'')))) = None
   \<and> fst (ManifestIO_write absent_file_env True
            (snd (ManifestIO_write absent_file_env False (fresh_world ''/home/appium'')))) =
        Inr False
   \<and> fst (ManifestIO_write absent_file_env True (fresh_world ''/home/appium'')) =
        Inl (JsError ''ReferenceError'' None ''No data to write. Call `read()` first'')
   \<and> fst (ManifestIO_write absent_file_env False
            (snd (ManifestIO_write absent_file_env True (fresh_world ''/home/appium'')))) =
        Inl (JsError ''ReferenceError'' None ''No data to write. Call `read()` first'')"
  by (simp add: example_defs ManifestIO_write_def no_data_error_def)





subsection \<open>Claims about \<^verbatim>\<open>read\<close>\<close>

text \<open>
  C9 at the failing input. The manifest file exists and is empty, so it parses to
  \<^verbatim>\<open>null\<close>: \<^verbatim>\<open>read()\<close> fails to load it and rejects with the bare \<^verbatim>\<open>TypeError\<close> of reading
  \<^verbatim>\<open>drivers\<close> of \<^verbatim>\<open>null\<close>, whose message does not name the manifest path. A manifest
  file that holds only \<^verbatim>\<open>schemaRev: 2\<close> fails in the same way, with the bare \<^verbatim>\<open>TypeError\<close>
  of \<^verbatim>\<open>new Proxy\<close>. In both runs the path was resolved.
\<close>

theorem unloadable_manifest_file:
  "resolveManifestPath empty_file_env (fresh_world ''/home/appium'') =
     Inr ''/home/appium/extensions.yaml''
   \<and> readFile empty_file_env ''/home/appium/extensions.yaml'' = Inr []
   \<and> fst (ManifestIO_read empty_file_env False (fresh_world ''/home/appium'')) =
       Inl (JsError ''TypeError'' None ''Cannot read properties of null (reading 'drivers')'')
   \<and> \<not> sublist ''/home/appium/extensions.yaml''
          ''Cannot read properties of null (reading 'drivers')''
   \<and> readFile no_mappings_env ''/home/appium/extensions.yaml'' = Inr ''schemaRev: 2''
   \<and> fst (ManifestIO_read no_mappings_env False (fresh_world ''/home/appium'')) =
       Inl (JsError ''TypeError'' None
              ''Cannot create proxy with a non-object as target or handler'')
   \<and> \<not> sublist ''/home/appium/extensions.yaml''
          ''Cannot create proxy with a non-object as target or handler''"
proof -
  have n: "\<not> sublist ''/home/appium/extensions.yaml''
             ''Cannot read properties of null (reading 'drivers')''"
    "\<not> sublist ''/home/appium/extensions.yaml''
             ''Cannot create proxy with a non-object as target or handler''"
    by (simp_all add: sublist_Cons_right)
  show ?thesis using n by (simp add: example_defs store_defs)
qed

text \<open>
  C2 at the failing input. On a new store, \<^verbatim>\<open>write()\<close> returns false; a \<^verbatim>\<open>read()\<close> that
  then finds no manifest file (\<^verbatim>\<open>ENOENT\<close>) returns the manifest with two empty mappings
  and \<^verbatim>\<open>schemaRev\<close> 2, but the only file-system call it makes is the read: its
  \<^verbatim>\<open>write(true)\<close> gets the settled promise still held in \<^verbatim>\<open>_writing\<close>, and no file is
  written.
\<close>

theorem bootstrap_after_clean_write:
  "fst (ManifestIO_write absent_file_env False (fresh_world ''/home/appium'')) = Inr False
   \<and> try_load absent_file_env ''/home/appium/extensions.yaml'' = Inl enoent
   \<and> fst (ManifestIO_read absent_file_env False
            (snd (ManifestIO_write absent_file_env False (fresh_world ''/home/appium'')))) =
        Inr \<lparr>drivers = Proxy 0, plugins = Proxy 1, schemaRev = JNum 2\<rparr>
   \<and> trace (snd (ManifestIO_read absent_file_env False
            (snd (ManifestIO_write absent_file_env False (fresh_world ''/home/appium''))))) =
        [ReadFile ''/home/appium/extensions.yaml'']"
  by (simp add: example_defs store_defs)

subsection \<open>Claims about change tracking\<close>

text \<open>
  C3 at the failing input. On a store whose manifest has been read, \<^verbatim>\<open>write()\<close> with
  nothing changed returns false. Assigning a new driver to \<^verbatim>\<open>manifest.drivers\<close> then sets
  the dirty flag, but the next \<^verbatim>\<open>write()\<close> returns false again and writes no file: it
  returns the settled promise that the first call left in \<^verbatim>\<open>_writing\<close>.
\<close>

theorem mutation_after_clean_write:
  "fst (ManifestIO_write one_driver_env False loaded_world) = Inr False
   \<and> \<not> dirty (io (snd (ManifestIO_write one_driver_env False loaded_world)))
   \<and> dirty (io (set_prop (Proxy 0) ''other'' (obj other_driver)
                   (snd (ManifestIO_write one_driver_env False loaded_world))))
   \<and> fst (ManifestIO_write one_driver_env False
            (set_prop (Proxy 0) ''other'' (obj other_driver)
               (snd (ManifestIO_write one_driver_env False loaded_world)))) = Inr False
   \<and> trace (snd (ManifestIO_write one_driver_env False
            (set_prop (Proxy 0) ''other'' (obj other_driver)
               (snd (ManifestIO_write one_driver_env False loaded_world))))) =
        [ReadFile ''/home/appium/extensions.yaml'']"
  by (simp add: loaded_world_def example_defs store_defs)

text \<open>
  C1 at the failing input. \<^verbatim>\<open>loadExtensions\<close> on a home whose manifest holds one valid
  driver gives a driver registry whose \<^verbatim>\<open>installedExtensions\<close> is a new empty plain
  object, not the proxy under \<^verbatim>\<open>drivers\<close> of the store's manifest. \<^verbatim>\<open>addExtension\<close> puts
  the record into that plain object: the manifest still holds the one driver, the store
  is not dirty, the \<^verbatim>\<open>write()\<close> of the operation returns false and no file is written.
  (The plugin registry, as the spec has it, holds the proxy under \<^verbatim>\<open>plugins\<close>.)
\<close>

theorem installedExtensions_not_shared:
  "fst (loadExtensions one_driver_env (fresh_world ''/home/appium'')) =
     Inr (\<lparr>config_class = DriverConfig, installedExtensions = Plain 2,
            knownAutomationNames = [JStr ''Fake'']\<rparr>,
          \<lparr>config_class = PluginConfig, installedExtensions = Proxy 1,
            knownAutomationNames = []\<rparr>)
   \<and> data (io (snd (loadExtensions one_driver_env (fresh_world ''/home/appium'')))) =
       Some \<lparr>drivers = Proxy 0, plugins = Proxy 1, schemaRev = JNum 2\<rparr>
   \<and> get_record (Proxy 0) (snd (loadExtensions one_driver_env (fresh_world ''/home/appium''))) =
       [(''fake'', obj fake_driver)]
   \<and> get_record (Plain 2) (snd (loadExtensions one_driver_env (fresh_world ''/home/appium''))) = []
   \<and> fst (addExtension one_driver_env
            \<lparr>config_class = DriverConfig, installedExtensions = Plain 2,
              knownAutomationNames = [JStr ''Fake'']\<rparr> ''other'' other_driver
            (snd (loadExtensions one_driver_env (fresh_world ''/home/appium'')))) = Inr False
   \<and> get_record (Proxy 0)
        (snd (addExtension one_driver_env
            \<lparr>config_class = DriverConfig, installedExtensions = Plain 2,
              knownAutomationNames = [JStr ''Fake'']\<rparr> ''other'' other_driver
            (snd (loadExtensions one_driver_env (fresh_world ''/home/appium''))))) =
       [(''fake'', obj fake_driver)]
   \<and> \<not> dirty (io
        (snd (addExtension one_driver_env
            \<lparr>config_class = DriverConfig, installedExtensions = Plain 2,
              knownAutomationNames = [JStr ''Fake'']\<rparr> ''other'' other_driver
            (snd (loadExtensions one_driver_env (fresh_world ''/home/appium''))))))
   \<and> trace
        (snd (addExtension one_driver_env
            \<lparr>config_class = DriverConfig, installedExtensions = Plain 2,
              knownAutomationNames = [JStr ''Fake'']\<rparr> ''other'' other_driver
            (snd (loadExtensions one_driver_env (fresh_world ''/home/appium''))))) =
       [ReadFile ''/home/appium/extensions.yaml'']"
  by (simp add: example_defs store_defs registry_defs)

subsection \<open>Claims about validation\<close>

text \<open>
  C5 at the failing input. In the manifest file the driver \<^verbatim>\<open>foo\<close> is an entry with no
  value, so the mapping that \<^verbatim>\<open>read()\<close> returns holds \<^verbatim>\<open>null\<close> under \<^verbatim>\<open>foo\<close>, after a
  well-formed driver. \<^verbatim>\<open>validate\<close> on that mapping throws the \<^verbatim>\<open>TypeError\<close> of
  destructuring \<^verbatim>\<open>null\<close>: it returns no mapping, deletes nothing and logs nothing, and
  \<^verbatim>\<open>loadExtensions\<close> rejects with the same error.
\<close>

theorem validate_throws_on_null_record:
  "get_record (Proxy 0)
      (snd (ManifestIO_read null_record_env False (fresh_world ''/home/appium''))) =
     [(''fake'', obj fake_driver), (''foo'', JNull)]
   \<and> fst (validate null_record_env used_driverConfig (Proxy 0)
            (snd (ManifestIO_read null_record_env False (fresh_world ''/home/appium'')))) =
       Inl (JsError ''TypeError'' None ''Cannot destructure property 'version' of 'extData' as it is null.'')
   \<and> snd (snd (validate null_record_env used_driverConfig (Proxy 0)
            (snd (ManifestIO_read null_record_env False (fresh_world ''/home/appium''))))) =
       snd (ManifestIO_read null_record_env False (fresh_world ''/home/appium''))
   \<and> fst (loadExtensions null_record_env (fresh_world ''/home/appium'')) =
       Inl (JsError ''TypeError'' None ''Cannot destructure property 'version' of 'extData' as it is null.'')
   \<and> logged (snd (loadExtensions null_record_env (fresh_world ''/home/appium''))) = []
   \<and> get_record (Proxy 0) (snd (loadExtensions null_record_env (fresh_world ''/home/appium''))) =
       [(''fake'', obj fake_driver), (''foo'', JNull)]"
  by (simp add: example_defs example_defs2 store_defs registry_defs)

text \<open>
  C6. In one \<^verbatim>\<open>validate\<close> pass of a driver registry over the records \<open>pairs\<close>, the
  record at position \<open>i\<close> gets the duplicate-capability problem exactly when an earlier
  record of the same pass has the same \<^verbatim>\<open>automationName\<close>; so the first occurrence of a
  name gets none. After the pass every \<^verbatim>\<open>automationName\<close> of the pass is in the seen-set,
  whatever other problems its record has. The pass starts from the empty set: the
  names held by the registry before the call change neither the problems found nor the
  result of \<^verbatim>\<open>validate\<close>.
\<close>

theorem duplicate_automationName_in_pass:
  assumes "config_class cfg = DriverConfig"
  shows "\<exists>found.
         fst (foundProblems E home (start_pass cfg) (object_records pairs)) = Inr found
       \<and> (\<forall>i < length pairs.
            (\<exists>p \<in> set (snd (found ! i)).
                err p = ''Multiple drivers claim support for the same automationName'')
            \<longleftrightarrow> (\<exists>j < i. strict_eq (get_prop (snd (pairs ! j)) ''automationName'')
                                   (get_prop (snd (pairs ! i)) ''automationName'')))
       \<and> (\<forall>i < length pairs.
            Set_has (knownAutomationNames
                       (snd (foundProblems E home (start_pass cfg) (object_records pairs))))
              (get_prop (snd (pairs ! i)) ''automationName''))
       \<and> start_pass (cfg\<lparr>knownAutomationNames := K\<rparr>) = start_pass cfg
       \<and> validate E (cfg\<lparr>knownAutomationNames := K\<rparr>) exts w = validate E cfg exts w"
proof -
  let ?c = "start_pass cfg"
  have c: "config_class ?c = DriverConfig" "knownAutomationNames ?c = []"
    using assms by (simp_all add: start_pass_def)
  have e: "\<not> Set_has [] v" for v by (simp add: Set_has_def)
  from foundProblems_driver [OF c(1), of E home pairs]
  obtain found where f: "fst (foundProblems E home ?c (object_records pairs)) = Inr found"
    and f1: "\<forall>i < length pairs.
            (\<exists>p \<in> set (snd (found ! i)).
                err p = ''Multiple drivers claim support for the same automationName'')
            \<longleftrightarrow> (Set_has (knownAutomationNames ?c) (get_prop (snd (pairs ! i)) ''automationName'')
                 \<or> (\<exists>j < i. strict_eq (get_prop (snd (pairs ! j)) ''automationName'')
                                     (get_prop (snd (pairs ! i)) ''automationName'')))"
    and f2: "\<forall>v. Set_has (knownAutomationNames (snd (foundProblems E home ?c (object_records pairs)))) v
            \<longleftrightarrow> (Set_has (knownAutomationNames ?c) v
                 \<or> (\<exists>j < length pairs. strict_eq (get_prop (snd (pairs ! j)) ''automationName'') v))"
    by blast
  have 1: "\<forall>i < length pairs.
            (\<exists>p \<in> set (snd (found ! i)).
                err p = ''Multiple drivers claim support for the same automationName'')
            \<longleftrightarrow> (\<exists>j < i. strict_eq (get_prop (snd (pairs ! j)) ''automationName'')
                                   (get_prop (snd (pairs ! i)) ''automationName''))"
    using f1 unfolding c(2) by (simp add: e)
  have 2: "\<forall>i < length pairs.
            Set_has (knownAutomationNames (snd (foundProblems E home ?c (object_records pairs))))
              (get_prop (snd (pairs ! i)) ''automationName'')"
    using f2 strict_eq_refl by blast
  have 3: "start_pass (cfg\<lparr>knownAutomationNames := K\<rparr>) = start_pass cfg"
    using assms by (simp add: start_pass_def)
  show ?thesis using f 1 2 3 by (simp add: validate_def)
qed

theorem duplicate_automationName_in_pass_witness:
  "config_class used_driverConfig = DriverConfig
   \<and> (1::nat) < length two_drivers
   \<and> strict_eq (get_prop (snd (two_drivers ! 0)) ''automationName'')
               (get_prop (snd (two_drivers ! 1)) ''automationName'')
   \<and> (\<exists>found. fst (foundProblems absent_file_env ''/home/appium''
                      (start_pass used_driverConfig) (object_records two_drivers)) = Inr found
        \<and> (\<exists>p \<in> set (snd (found ! 1)).
              err p = ''Multiple drivers claim support for the same automationName'')
        \<and> \<not> (\<exists>p \<in> set (snd (found ! 0)).
              err p = ''Multiple drivers claim support for the same automationName''))"
proof -
  have h: "config_class used_driverConfig = DriverConfig" by (simp add: used_driverConfig_def)
  have l: "(0::nat) < length two_drivers" "(1::nat) < length two_drivers"
    by (simp_all add: two_drivers_def)
  have s: "strict_eq (get_prop (snd (two_drivers ! 0)) ''automationName'')
               (get_prop (snd (two_drivers ! 1)) ''automationName'')"
    by (simp add: two_drivers_def fake_driver_def other_driver_def get_prop_def)
  from duplicate_automationName_in_pass [OF h, of absent_file_env "''/home/appium''" two_drivers]
  obtain found where f: "fst (foundProblems absent_file_env ''/home/appium''
                      (start_pass used_driverConfig) (object_records two_drivers)) = Inr found"
    and t: "\<forall>i < length two_drivers.
            (\<exists>p \<in> set (snd (found ! i)).
                err p = ''Multiple drivers claim support for the same automationName'')
            \<longleftrightarrow> (\<exists>j < i. strict_eq (get_prop (snd (two_drivers ! j)) ''automationName'')
                                   (get_prop (snd (two_drivers ! i)) ''automationName''))"
    by blast
  have a: "(\<exists>p \<in> set (snd (found ! 1)).
         err p = ''Multiple drivers claim support for the same automationName'')"
    using t l(2) s by (metis zero_less_one)
  have b: "\<not> (\<exists>p \<in> set (snd (found ! 0)).
         err p = ''Multiple drivers claim support for the same automationName'')"
    using t l(1) by (metis not_less_zero)
  show ?thesis using h l s f a b by blast
qed

text \<open>
  C7. Among the problems that \<^verbatim>\<open>DriverConfig.getConfigProblems\<close> gives for a record, those
  about \<^verbatim>\<open>platformNames\<close> are: exactly the one missing-or-incorrect problem when
  \<^verbatim>\<open>platformNames\<close> is not an array; exactly the one empty-list problem when it is the
  empty array; and for a non-empty array one malformed-element problem for each element
  that is not a string, in order, and none for the strings.
\<close>

theorem platformNames_checks:
  "(\<not> isArray (get_prop d ''platformNames'') \<longrightarrow>
      platformNames_problems (fst (DriverConfig_getConfigProblems known d)) =
        [\<lparr>err = ''Missing or incorrect supported platformNames list.'',
          val = get_prop d ''platformNames''\<rparr>])
   \<and> (get_prop d ''platformNames'' = JArr r [] \<longrightarrow>
      platformNames_problems (fst (DriverConfig_getConfigProblems known d)) =
        [\<lparr>err = ''Empty platformNames list.'', val = JArr r []\<rparr>])
   \<and> (get_prop d ''platformNames'' = JArr r xs \<and> xs \<noteq> [] \<longrightarrow>
      platformNames_problems (fst (DriverConfig_getConfigProblems known d)) =
        map (\<lambda>x. \<lparr>err = ''Incorrectly formatted platformName.'', val = x\<rparr>)
          (filter (\<lambda>x. \<not> isString x) xs))"
proof (intro conjI impI)
  assume "\<not> isArray (get_prop d ''platformNames'')"
  then show "platformNames_problems (fst (DriverConfig_getConfigProblems known d)) =
        [\<lparr>err = ''Missing or incorrect supported platformNames list.'',
          val = get_prop d ''platformNames''\<rparr>]"
    by (cases "get_prop d ''platformNames''")
       (simp_all add: DriverConfig_getConfigProblems_def platformNames_problems_def Let_def)
next
  assume "get_prop d ''platformNames'' = JArr r []"
  then show "platformNames_problems (fst (DriverConfig_getConfigProblems known d)) =
        [\<lparr>err = ''Empty platformNames list.'', val = JArr r []\<rparr>]"
    by (simp add: DriverConfig_getConfigProblems_def platformNames_problems_def Let_def)
next
  assume a: "get_prop d ''platformNames'' = JArr r xs \<and> xs \<noteq> []"
  have "platformNames_problems (fst (DriverConfig_getConfigProblems known d)) =
          check_platformNames xs"
    using a
    by (simp add: DriverConfig_getConfigProblems_def Let_def platformNames_problems_check)
       (simp add: platformNames_problems_def)
  then show "platformNames_problems (fst (DriverConfig_getConfigProblems known d)) =
        map (\<lambda>x. \<lparr>err = ''Incorrectly formatted platformName.'', val = x\<rparr>)
          (filter (\<lambda>x. \<not> isString x) xs)"
    by (simp add: check_platformNames_eq)
qed

theorem platformNames_checks_witness:
  "\<not> isArray (get_prop (ExtData 18 [(''platformNames'', JStr ''ios'')]) ''platformNames'')
   \<and> platformNames_problems
        (fst (DriverConfig_getConfigProblems [] (ExtData 18 [(''platformNames'', JStr ''ios'')]))) =
        [\<lparr>err = ''Missing or incorrect supported platformNames list.'', val = JStr ''ios''\<rparr>]
   \<and> get_prop (ExtData 19 [(''platformNames'', JArr 20 [])]) ''platformNames'' = JArr 20 []
   \<and> platformNames_problems
        (fst (DriverConfig_getConfigProblems [] (ExtData 19 [(''platformNames'', JArr 20 [])]))) =
        [\<lparr>err = ''Empty platformNames list.'', val = JArr 20 []\<rparr>]
   \<and> get_prop (ExtData 21 [(''platformNames'', JArr 22 [JStr ''ios'', JNum 5])]) ''platformNames'' =
        JArr 22 [JStr ''ios'', JNum 5]
   \<and> [JStr ''ios'', JNum 5] \<noteq> []
   \<and> platformNames_problems
        (fst (DriverConfig_getConfigProblems []
               (ExtData 21 [(''platformNames'', JArr 22 [JStr ''ios'', JNum 5])]))) =
        [\<lparr>err = ''Incorrectly formatted platformName.'', val = JNum 5\<rparr>]"
proof -
  have a: "get_prop (ExtData 18 [(''platformNames'', JStr ''ios'')]) ''platformNames'' = JStr ''ios''"
    by (simp add: get_prop_def)
  have b: "get_prop (ExtData 19 [(''platformNames'', JArr 20 [])]) ''platformNames'' = JArr 20 []"
    by (simp add: get_prop_def)
  have c: "get_prop (ExtData 21 [(''platformNames'', JArr 22 [JStr ''ios'', JNum 5])]) ''platformNames'' =
        JArr 22 [JStr ''ios'', JNum 5]"
    by (simp add: get_prop_def)
  show ?thesis
    using platformNames_checks [where d = "ExtData 18 [(''platformNames'', JStr ''ios'')]"
        and known = "[]"]
      platformNames_checks [where d = "ExtData 19 [(''platformNames'', JArr 20 [])]"
        and known = "[]" and r = 20]
      platformNames_checks [where d = "ExtData 21 [(''platformNames'', JArr 22 [JStr ''ios'', JNum 5])]"
        and known = "[]" and r = 22 and xs = "[JStr ''ios'', JNum 5]"]
      a b c
    by simp
qed

text \<open>
  C8, as the code has it. The schema checks run only when \<^verbatim>\<open>schema\<close> is a string or an
  object. A \<^verbatim>\<open>schema\<close> that is an object but not a plain object (an array) gives the
  malformed-schema problem; a \<^verbatim>\<open>schema\<close> that is neither a string nor an object (a
  number, a boolean, \<^verbatim>\<open>null\<close>) gives no schema problem at all; a string that
  \<^verbatim>\<open>isAllowedSchemaFileExtension\<close> rejects gives the problem that names the allowed
  extensions.
\<close>

theorem schema_checks:
  assumes "get_prop d ''schema'' = s"
  shows "(isObject s \<and> \<not> isPlainObject s \<longrightarrow>
            getSchemaProblems E home extType d extName =
              [\<lparr>err = ''Incorrectly formatted schema field; must be a path to a schema file or a schema object.'',
                val = s\<rparr>])
       \<and> (\<not> isString s \<and> \<not> isObject s \<longrightarrow> getSchemaProblems E home extType d extName = [])
       \<and> (s = JStr f \<and> \<not> isAllowedSchemaFileExtension E f \<longrightarrow>
            getSchemaProblems E home extType d extName =
              [\<lparr>err = ''Schema file has unsupported extension. Allowed: '' @
                       join '', '' (ALLOWED_SCHEMA_EXTENSIONS E),
                val = JStr f\<rparr>])"
  using assms
  by (cases s) (simp_all add: getSchemaProblems_def extDataHasSchema_def Let_def)

theorem schema_checks_witness:
  "get_prop (ExtData 15 [(''schema'', JArr 16 [])]) ''schema'' = JArr 16 []
   \<and> isObject (JArr 16 []) \<and> \<not> isPlainObject (JArr 16 [])
   \<and> getSchemaProblems absent_file_env ''/home/appium'' ''driver''
        (ExtData 15 [(''schema'', JArr 16 [])]) ''fake'' =
        [\<lparr>err = ''Incorrectly formatted schema field; must be a path to a schema file or a schema object.'',
          val = JArr 16 []\<rparr>]
   \<and> get_prop numeric_schema_driver ''schema'' = JNum 5
   \<and> \<not> isString (JNum 5) \<and> \<not> isObject (JNum 5)
   \<and> getSchemaProblems absent_file_env ''/home/appium'' ''driver'' numeric_schema_driver ''fake'' = []
   \<and> get_prop (ExtData 17 [(''schema'', JStr ''schema.yaml'')]) ''schema'' = JStr ''schema.yaml''
   \<and> \<not> isAllowedSchemaFileExtension absent_file_env ''schema.yaml''
   \<and> getSchemaProblems absent_file_env ''/home/appium'' ''driver''
        (ExtData 17 [(''schema'', JStr ''schema.yaml'')]) ''fake'' =
        [\<lparr>err = ''Schema file has unsupported extension. Allowed: .json, .js, .cjs'',
          val = JStr ''schema.yaml''\<rparr>]"
proof -
  have a: "get_prop (ExtData 15 [(''schema'', JArr 16 [])]) ''schema'' = JArr 16 []"
    by (simp add: get_prop_def)
  have b: "get_prop numeric_schema_driver ''schema'' = JNum 5"
    by (simp add: get_prop_def numeric_schema_driver_def fake_driver_def)
  have c: "get_prop (ExtData 17 [(''schema'', JStr ''schema.yaml'')]) ''schema'' = JStr ''schema.yaml''"
    by (simp add: get_prop_def)
  have d: "\<not> isAllowedSchemaFileExtension absent_file_env ''schema.yaml''"
    "join '', '' (ALLOWED_SCHEMA_EXTENSIONS absent_file_env) = ''.json, .js, .cjs''"
    by (simp_all add: absent_file_env_def)
  show ?thesis
    using schema_checks [OF a, where E = absent_file_env and home = "''/home/appium''"
        and extType = "''driver''" and extName = "''fake''"]
      schema_checks [OF b, where E = absent_file_env and home = "''/home/appium''"
        and extType = "''driver''" and extName = "''fake''"]
      schema_checks [OF c, where E = absent_file_env and home = "''/home/appium''"
        and extType = "''driver''" and extName = "''fake''" and f = "''schema.yaml''"]
      a b c d
    by simp
qed

text \<open>
  C8 as stated fails: a driver record that is well-formed except that its \<^verbatim>\<open>schema\<close> is
  the number 5 gets no schema problem, and validation finds no problem in it at all.
\<close>

theorem numeric_schema_counterexample:
  "get_prop numeric_schema_driver ''schema'' = JNum 5
   \<and> getSchemaProblems absent_file_env ''/home/appium'' DRIVER_TYPE numeric_schema_driver ''fake'' = []
   \<and> fst (foundProblems absent_file_env ''/home/appium''
            \<lparr>config_class = DriverConfig, installedExtensions = Plain 2, knownAutomationNames = []\<rparr>
            [(''fake'', obj numeric_schema_driver)]) = Inr [(''fake'', [])]"
  by (simp add: numeric_schema_driver_def example_defs registry_defs Let_def)

end
